theory Spec2Isabelle
  imports Complex_Main "HOL-Library.Log_Nat"
begin

section \<open>JavaScript values\<close>

text \<open>
  The API layer is dynamically typed: every payload is whatever \<^verbatim>\<open>response.json()\<close>
  produced. A payload is modelled as a JSON value. \<open>JUndefined\<close> is the result of reading a
  property that is not there. Numbers in payloads are mathematical integers: the provider
  sends counts and scores, and sums and differences of integers are exact in doubles
  below \<open>2^53\<close>; fractions and larger magnitudes are outside the model. A string is the
  list of its code units, of which \<open>char\<close> covers U+0000 to U+00FF. \<open>JObj\<close> lists the own
  properties of an object, each key once.
\<close>

datatype jsval =
    JUndefined
  | JNull
  | JBool bool
  | JNum int
  | JStr string
  | JArr "jsval list"
  | JObj "(string \<times> jsval) list"

text \<open>What \<^verbatim>\<open>parseInt\<close> returns: a number or NaN.\<close>

datatype number = NaN | Num int

text \<open>Every \<^verbatim>\<open>throw\<close> of the source, and every exception the runtime raises in it.\<close>

datatype exn =
    TypeError
  | SyntaxError
  | NetworkFailure
  | Error string

definition bindE :: "exn + 'a \<Rightarrow> ('a \<Rightarrow> exn + 'b) \<Rightarrow> exn + 'b" where
  "bindE m f = (case m of Inl e \<Rightarrow> Inl e | Inr v \<Rightarrow> f v)"

definition nullish :: "jsval \<Rightarrow> bool" where
  "nullish v = (v = JUndefined \<or> v = JNull)"

definition truthy :: "jsval \<Rightarrow> bool" where
  "truthy v = (case v of
      JUndefined \<Rightarrow> False
    | JNull \<Rightarrow> False
    | JBool b \<Rightarrow> b
    | JNum n \<Rightarrow> n \<noteq> 0
    | JStr s \<Rightarrow> s \<noteq> []
    | JArr xs \<Rightarrow> True
    | JObj kvs \<Rightarrow> True)"

text \<open>\<^verbatim>\<open>a || b\<close> on two values.\<close>

definition orElse :: "jsval \<Rightarrow> jsval \<Rightarrow> jsval" where
  "orElse a b = (if truthy a then a else b)"

definition isArray :: "jsval \<Rightarrow> bool" where
  "isArray v = (case v of JArr xs \<Rightarrow> True | _ \<Rightarrow> False)"

definition elements :: "jsval \<Rightarrow> jsval list" where
  "elements v = (case v of JArr xs \<Rightarrow> xs | _ \<Rightarrow> [])"

text \<open>
  \<^verbatim>\<open>v.k\<close> for the property names the source reads from payloads (\<^verbatim>\<open>table\<close>, \<^verbatim>\<open>teams\<close>,
  \<^verbatim>\<open>events\<close>, \<^verbatim>\<open>idTeam\<close>, \<^verbatim>\<open>strTeam\<close>, \<^verbatim>\<open>intRank\<close> and the like). None of them is a member
  of a built-in prototype, so the read finds an own property of an object or nothing;
  on \<^verbatim>\<open>null\<close> and \<^verbatim>\<open>undefined\<close> the read throws.
\<close>

definition field :: "jsval \<Rightarrow> string \<Rightarrow> jsval" where
  "field v k = (case v of
      JObj kvs \<Rightarrow> (case map_of kvs k of Some x \<Rightarrow> x | None \<Rightarrow> JUndefined)
    | _ \<Rightarrow> JUndefined)"

definition get :: "jsval \<Rightarrow> string \<Rightarrow> exn + jsval" where
  "get v k = (if nullish v then Inl TypeError else Inr (field v k))"

text \<open>
  \<^verbatim>\<open>a === b\<close> for two values that sit at different places of parsed payloads: primitives
  compare by value, objects and arrays are distinct references.
\<close>

definition strictEquals :: "jsval \<Rightarrow> jsval \<Rightarrow> bool" where
  "strictEquals a b = (case a of JArr xs \<Rightarrow> False | JObj kvs \<Rightarrow> False | _ \<Rightarrow> a = b)"

subsection \<open>Strings\<close>

fun includesStr :: "string \<Rightarrow> string \<Rightarrow> bool" where
  "includesStr [] sub = (sub = [])"
| "includesStr (c # cs) sub = (take (length sub) (c # cs) = sub \<or> includesStr cs sub)"

fun showNat :: "nat \<Rightarrow> string" where
  "showNat n = (if n < 10 then [char_of (48 + n)] else showNat (n div 10) @ [char_of (48 + n mod 10)])"

definition showInt :: "int \<Rightarrow> string" where
  "showInt i = (if i < 0 then ''-'' @ showNat (nat (- i)) else showNat (nat i))"

text \<open>
  \<^verbatim>\<open>String(v)\<close>, as template literals and \<^verbatim>\<open>parseInt\<close> apply it. An array joins its
  elements with commas, \<^verbatim>\<open>null\<close> and \<^verbatim>\<open>undefined\<close> elements as the empty string. An
  object prints as \<^verbatim>\<open>[object Object]\<close>, unless an own \<^verbatim>\<open>toString\<close> property (a JSON
  value, so not callable) shadows the inherited method: then the conversion throws.
\<close>

fun toString :: "jsval \<Rightarrow> exn + string" and join :: "jsval list \<Rightarrow> exn + string" where
  "toString JUndefined = Inr ''undefined''"
| "toString JNull = Inr ''null''"
| "toString (JBool b) = Inr (if b then ''true'' else ''false'')"
| "toString (JNum n) = Inr (showInt n)"
| "toString (JStr s) = Inr s"
| "toString (JArr xs) = join xs"
| "toString (JObj kvs) =
     (if ''toString'' \<in> set (map fst kvs) then Inl TypeError else Inr ''[object Object]'')"
| "join [] = Inr []"
| "join (x # xs) =
     (case (if x = JUndefined \<or> x = JNull then Inr [] else toString x) of
        Inl e \<Rightarrow> Inl e
      | Inr s \<Rightarrow>
          (if xs = [] then Inr s
           else (case join xs of Inl e \<Rightarrow> Inl e | Inr r \<Rightarrow> Inr (s @ '','' @ r))))"

text \<open>
  \<^verbatim>\<open>parseInt(string)\<close> with no radix: skip leading white space, read a sign, switch to
  radix 16 after \<^verbatim>\<open>0x\<close>, read the longest run of digits; no digit gives NaN.
\<close>

definition isWhiteSpace :: "char \<Rightarrow> bool" where
  "isWhiteSpace c = (c \<in> set [CHR 0x09, CHR 0x0A, CHR 0x0B, CHR 0x0C, CHR 0x0D, CHR 0x20, CHR 0xA0])"

definition digitValue :: "char \<Rightarrow> nat option" where
  "digitValue c =
     (let n = (of_char c :: nat) in
      if 48 \<le> n \<and> n \<le> 57 then Some (n - 48)
      else if 97 \<le> n \<and> n \<le> 122 then Some (n - 87)
      else if 65 \<le> n \<and> n \<le> 90 then Some (n - 55)
      else None)"

definition radixDigit :: "nat \<Rightarrow> char \<Rightarrow> bool" where
  "radixDigit R c = (case digitValue c of Some d \<Rightarrow> d < R | None \<Rightarrow> False)"

definition digitsValue :: "nat \<Rightarrow> string \<Rightarrow> nat" where
  "digitsValue R Z = foldl (\<lambda>acc c. acc * R + (case digitValue c of Some d \<Rightarrow> d | None \<Rightarrow> 0)) 0 Z"

definition parseIntString :: "string \<Rightarrow> number" where
  "parseIntString input =
     (let S = dropWhile isWhiteSpace input;
          negative = (take 1 S = ''-'');
          S1 = (if take 1 S = ''+'' \<or> take 1 S = ''-'' then drop 1 S else S);
          hex = (take 2 S1 = ''0x'' \<or> take 2 S1 = ''0X'');
          R = (if hex then 16 else 10);
          S2 = (if hex then drop 2 S1 else S1);
          Z = takeWhile (radixDigit R) S2
      in if Z = [] then NaN
         else Num ((if negative then - 1 else 1) * int (digitsValue R Z)))"

definition parseInt :: "jsval \<Rightarrow> exn + number" where
  "parseInt v = bindE (toString v) (\<lambda>s. Inr (parseIntString s))"

text \<open>\<^verbatim>\<open>parseInt(v) || d\<close> for a numeric default: NaN and 0 are falsy.\<close>

definition orInt :: "number \<Rightarrow> int \<Rightarrow> int" where
  "orInt x d = (case x of NaN \<Rightarrow> d | Num n \<Rightarrow> if n = 0 then d else n)"

definition parseIntOr :: "jsval \<Rightarrow> int \<Rightarrow> exn + int" where
  "parseIntOr v d = bindE (parseInt v) (\<lambda>x. Inr (orInt x d))"

subsection \<open>The runtime\<close>

text \<open>
  What the code takes from the JavaScript runtime and the claims do not depend on:
  \<open>toUpperCase\<close> is \<^verbatim>\<open>String.prototype.toUpperCase\<close>; \<open>isoDate ms\<close> is
  \<^verbatim>\<open>new Date(ms).toISOString().split('T')[0]\<close>; for the built-in value \<open>m\<close> reached from
  an object literal along the property path \<open>p\<close> (see \<open>lookup\<close> below), \<open>memberText p\<close> is
  \<^verbatim>\<open>String(m)\<close>, and \<open>memberProperty p\<close> tells whether reading \<open>m\<close> throws or else whether
  \<open>m\<close> is truthy.
\<close>

record runtime =
  toUpperCase :: "string \<Rightarrow> string"
  isoDate :: "int \<Rightarrow> string"
  memberText :: "string list \<Rightarrow> string"
  memberProperty :: "string list \<Rightarrow> exn + bool"

subsection \<open>Object literals used as lookup tables\<close>

text \<open>
  \<^verbatim>\<open>table[key]\<close> on an object literal finds an own property, or else a member every object
  inherits from \<^verbatim>\<open>Object.prototype\<close> (a function, or the prototype itself for
  \<^verbatim>\<open>__proto__\<close>), or else nothing. \<open>Inherited p\<close> is the built-in value at the end of the
  property path \<open>p\<close>.
\<close>

datatype 'a member = Own 'a | Inherited "string list"

definition objectPrototypeKeys :: "string list" where
  "objectPrototypeKeys =
     [''constructor'', ''toString'', ''toLocaleString'', ''valueOf'', ''hasOwnProperty'',
      ''isPrototypeOf'', ''propertyIsEnumerable'', ''__proto__'', ''__defineGetter__'',
      ''__defineSetter__'', ''__lookupGetter__'', ''__lookupSetter__'']"

definition lookup :: "(string \<times> 'a) list \<Rightarrow> string \<Rightarrow> 'a member option" where
  "lookup tbl k =
     (case map_of tbl k of
        Some v \<Rightarrow> Some (Own v)
      | None \<Rightarrow> if k \<in> set objectPrototypeKeys then Some (Inherited [k]) else None)"

text \<open>\<^verbatim>\<open>table[key] || d\<close> for a table of strings: an inherited member is truthy.\<close>

definition lookupOr :: "(string \<times> string) list \<Rightarrow> string \<Rightarrow> string \<Rightarrow> string member" where
  "lookupOr tbl k d =
     (case lookup tbl k of
        Some (Own s) \<Rightarrow> if s = [] then Own d else Own s
      | Some (Inherited p) \<Rightarrow> Inherited p
      | None \<Rightarrow> Own d)"

text \<open>A looked-up value inside a template literal.\<close>

definition memberString :: "runtime \<Rightarrow> string member \<Rightarrow> string" where
  "memberString rt m = (case m of Own s \<Rightarrow> s | Inherited p \<Rightarrow> memberText rt p)"

section \<open>FootballAPI\<close>

record cache_entry =
  data :: jsval
  timestamp :: int

record api =
  baseURL :: string
  apiKey :: string
  cache :: "string \<Rightarrow> cache_entry option"
  cacheExpiry :: int

definition constructor :: api where
  "constructor =
     \<lparr> baseURL = ''https://www.thesportsdb.com/api/v1/json'',
       apiKey = ''3'',
       cache = Map.empty,
       cacheExpiry = 600000 \<rparr>"

definition leagueMap :: "(string \<times> string) list" where
  "leagueMap =
     [(''PL'', ''4328''), (''PD'', ''4335''), (''SA'', ''4332''), (''BL1'', ''4331''), (''FL1'', ''4334'')]"

definition getLeagueId :: "string \<Rightarrow> string member" where
  "getLeagueId competition = lookupOr leagueMap competition ''4328''"

subsection \<open>fetchData\<close>

text \<open>
  The outcome of \<^verbatim>\<open>fetch(fullUrl, ...)\<close>: the promise rejects, or resolves with a response
  of which the code reads \<^verbatim>\<open>ok\<close>, \<^verbatim>\<open>status\<close>, \<^verbatim>\<open>statusText\<close> and \<^verbatim>\<open>json()\<close> (\<open>None\<close> when the
  body does not parse, so that \<^verbatim>\<open>json()\<close> rejects).
\<close>

datatype response =
    NetworkError
  | HttpResponse bool int string "jsval option"

text \<open>
  What the environment supplies to one call of \<^verbatim>\<open>fetchData\<close>: the reading of
  \<^verbatim>\<open>Date.now()\<close> at the cache test, the outcome of the live request, the reading of
  \<^verbatim>\<open>Date.now()\<close> when the entry is stored, and the readings of the clock inside
  \<^verbatim>\<open>getMockData\<close>, in the order of the source.
\<close>

record tick =
  now_check :: int
  live :: response
  now_store :: int
  now_mock :: "nat \<Rightarrow> int"

definition mockTeamsPayload :: jsval where
  "mockTeamsPayload =
    JObj [
      (''teams'', JArr [
        JObj [
          (''idTeam'', JStr ''133604''),
          (''strTeam'', JStr ''Arsenal''),
          (''strTeamShort'', JStr ''ARS''),
          (''strBadge'', JStr ''https://www.thesportsdb.com/images/media/team/badge/arsenal.png''),
          (''intFormedYear'', JStr ''1886''),
          (''strStadium'', JStr ''Emirates Stadium''),
          (''strWebsite'', JStr ''www.arsenal.com''),
          (''strLocation'', JStr ''London, England'')],
        JObj [
          (''idTeam'', JStr ''133612''),
          (''strTeam'', JStr ''Chelsea''),
          (''strTeamShort'', JStr ''CHE''),
          (''strBadge'', JStr ''https://www.thesportsdb.com/images/media/team/badge/chelsea.png''),
          (''intFormedYear'', JStr ''1905''),
          (''strStadium'', JStr ''Stamford Bridge''),
          (''strWebsite'', JStr ''www.chelseafc.com''),
          (''strLocation'', JStr ''London, England'')],
        JObj [
          (''idTeam'', JStr ''133602''),
          (''strTeam'', JStr ''Liverpool''),
          (''strTeamShort'', JStr ''LIV''),
          (''strBadge'', JStr ''https://www.thesportsdb.com/images/media/team/badge/liverpool.png''),
          (''intFormedYear'', JStr ''1892''),
          (''strStadium'', JStr ''Anfield''),
          (''strWebsite'', JStr ''www.liverpoolfc.com''),
          (''strLocation'', JStr ''Liverpool, England'')],
        JObj [
          (''idTeam'', JStr ''133616''),
          (''strTeam'', JStr ''Manchester City''),
          (''strTeamShort'', JStr ''MCI''),
          (''strBadge'', JStr ''https://www.thesportsdb.com/images/media/team/badge/manchester-city.png''),
          (''intFormedYear'', JStr ''1880''),
          (''strStadium'', JStr ''Etihad Stadium''),
          (''strWebsite'', JStr ''www.mancity.com''),
          (''strLocation'', JStr ''Manchester, England'')]]),
      (''_isMockData'', JBool True),
      (''_notice'', JStr ''This is demonstration data. In production, this would be live data from TheSportsDB API.'')]"

definition mockTablePayload :: jsval where
  "mockTablePayload =
    JObj [
      (''table'', JArr [
        JObj [
          (''intRank'', JStr ''1''),
          (''idTeam'', JStr ''133602''),
          (''strTeam'', JStr ''Liverpool''),
          (''intPlayed'', JStr ''15''),
          (''intWin'', JStr ''11''),
          (''intDraw'', JStr ''3''),
          (''intLoss'', JStr ''1''),
          (''intGoalsFor'', JStr ''29''),
          (''intGoalsAgainst'', JStr ''8''),
          (''intGoalDifference'', JStr ''21''),
          (''intPoints'', JStr ''36''),
          (''strBadge'', JStr ''https://www.thesportsdb.com/images/media/team/badge/liverpool.png''),
          (''strForm'', JStr ''WWWDW'')],
        JObj [
          (''intRank'', JStr ''2''),
          (''idTeam'', JStr ''133604''),
          (''strTeam'', JStr ''Arsenal''),
          (''intPlayed'', JStr ''15''),
          (''intWin'', JStr ''9''),
          (''intDraw'', JStr ''5''),
          (''intLoss'', JStr ''1''),
          (''intGoalsFor'', JStr ''26''),
          (''intGoalsAgainst'', JStr ''12''),
          (''intGoalDifference'', JStr ''14''),
          (''intPoints'', JStr ''32''),
          (''strBadge'', JStr ''https://www.thesportsdb.com/images/media/team/badge/arsenal.png''),
          (''strForm'', JStr ''WWDLD'')],
        JObj [
          (''intRank'', JStr ''3''),
          (''idTeam'', JStr ''133616''),
          (''strTeam'', JStr ''Manchester City''),
          (''intPlayed'', JStr ''15''),
          (''intWin'', JStr ''9''),
          (''intDraw'', JStr ''4''),
          (''intLoss'', JStr ''2''),
          (''intGoalsFor'', JStr ''31''),
          (''intGoalsAgainst'', JStr ''15''),
          (''intGoalDifference'', JStr ''16''),
          (''intPoints'', JStr ''31''),
          (''strBadge'', JStr ''https://www.thesportsdb.com/images/media/team/badge/manchester-city.png''),
          (''strForm'', JStr ''WLDWW'')],
        JObj [
          (''intRank'', JStr ''4''),
          (''idTeam'', JStr ''133612''),
          (''strTeam'', JStr ''Chelsea''),
          (''intPlayed'', JStr ''15''),
          (''intWin'', JStr ''8''),
          (''intDraw'', JStr ''4''),
          (''intLoss'', JStr ''3''),
          (''intGoalsFor'', JStr ''28''),
          (''intGoalsAgainst'', JStr ''18''),
          (''intGoalDifference'', JStr ''10''),
          (''intPoints'', JStr ''28''),
          (''strBadge'', JStr ''https://www.thesportsdb.com/images/media/team/badge/chelsea.png''),
          (''strForm'', JStr ''WWLWD'')]]),
      (''_isMockData'', JBool True),
      (''_notice'', JStr ''This is demonstration data showing Premier League standings.'')]"

definition mockEventsPayload :: "runtime \<Rightarrow> (nat \<Rightarrow> int) \<Rightarrow> jsval" where
  "mockEventsPayload rt now =
    JObj [
      (''events'', JArr [
        JObj [
          (''idEvent'', JStr ''1''),
          (''strEvent'', JStr ''Arsenal vs Chelsea''),
          (''strHomeTeam'', JStr ''Arsenal''),
          (''strAwayTeam'', JStr ''Chelsea''),
          (''intHomeScore'', JStr ''2''),
          (''intAwayScore'', JStr ''1''),
          (''dateEvent'', (JStr (isoDate rt (now 0)))),
          (''strTime'', JStr ''17:30:00''),
          (''strStatus'', JStr ''Match Finished''),
          (''strSeason'', JStr ''2024-2025''),
          (''intRound'', JStr ''15''),
          (''matchday'', JNum 15)],
        JObj [
          (''idEvent'', JStr ''2''),
          (''strEvent'', JStr ''Manchester City vs Liverpool''),
          (''strHomeTeam'', JStr ''Manchester City''),
          (''strAwayTeam'', JStr ''Liverpool''),
          (''intHomeScore'', JStr ''1''),
          (''intAwayScore'', JStr ''3''),
          (''dateEvent'', (JStr (isoDate rt (now 1 - 86400000)))),
          (''strTime'', JStr ''15:00:00''),
          (''strStatus'', JStr ''Match Finished''),
          (''strSeason'', JStr ''2024-2025''),
          (''intRound'', JStr ''15''),
          (''matchday'', JNum 15)],
        JObj [
          (''idEvent'', JStr ''3''),
          (''strEvent'', JStr ''Liverpool vs Arsenal''),
          (''strHomeTeam'', JStr ''Liverpool''),
          (''strAwayTeam'', JStr ''Arsenal''),
          (''intHomeScore'', JNull),
          (''intAwayScore'', JNull),
          (''dateEvent'', (JStr (isoDate rt (now 2 + 86400000)))),
          (''strTime'', JStr ''16:00:00''),
          (''strStatus'', JStr ''Not Started''),
          (''strSeason'', JStr ''2024-2025''),
          (''intRound'', JStr ''16''),
          (''matchday'', JNum 16)],
        JObj [
          (''idEvent'', JStr ''4''),
          (''strEvent'', JStr ''Chelsea vs Manchester City''),
          (''strHomeTeam'', JStr ''Chelsea''),
          (''strAwayTeam'', JStr ''Manchester City''),
          (''intHomeScore'', JStr ''0''),
          (''intAwayScore'', JStr ''2''),
          (''dateEvent'', (JStr (isoDate rt (now 3 - 2 * 86400000)))),
          (''strTime'', JStr ''14:30:00''),
          (''strStatus'', JStr ''Match Finished''),
          (''strSeason'', JStr ''2024-2025''),
          (''intRound'', JStr ''14''),
          (''matchday'', JNum 14)],
        JObj [
          (''idEvent'', JStr ''5''),
          (''strEvent'', JStr ''Arsenal vs Liverpool''),
          (''strHomeTeam'', JStr ''Arsenal''),
          (''strAwayTeam'', JStr ''Liverpool''),
          (''intHomeScore'', JStr ''3''),
          (''intAwayScore'', JStr ''1''),
          (''dateEvent'', (JStr (isoDate rt (now 4 - 3 * 86400000)))),
          (''strTime'', JStr ''17:00:00''),
          (''strStatus'', JStr ''Match Finished''),
          (''strSeason'', JStr ''2024-2025''),
          (''intRound'', JStr ''14''),
          (''matchday'', JNum 14)],
        JObj [
          (''idEvent'', JStr ''6''),
          (''strEvent'', JStr ''Manchester City vs Arsenal''),
          (''strHomeTeam'', JStr ''Manchester City''),
          (''strAwayTeam'', JStr ''Arsenal''),
          (''intHomeScore'', JStr ''1''),
          (''intAwayScore'', JStr ''1''),
          (''dateEvent'', (JStr (isoDate rt (now 5 - 7 * 86400000)))),
          (''strTime'', JStr ''16:30:00''),
          (''strStatus'', JStr ''Match Finished''),
          (''strSeason'', JStr ''2024-2025''),
          (''intRound'', JStr ''13''),
          (''matchday'', JNum 13)]]),
      (''_isMockData'', JBool True),
      (''_notice'', JStr ''This is demonstration data showing recent and upcoming matches with proper matchday information.'')]"

definition getMockData :: "runtime \<Rightarrow> (nat \<Rightarrow> int) \<Rightarrow> string \<Rightarrow> jsval" where
  "getMockData rt now endpoint =
     (if includesStr endpoint ''search_all_teams'' \<or> includesStr endpoint ''teams'' then mockTeamsPayload
      else if includesStr endpoint ''lookuptable'' \<or> includesStr endpoint ''table'' then mockTablePayload
      else if includesStr endpoint ''events'' \<or> includesStr endpoint ''matches'' then mockEventsPayload rt now
      else JObj [
        (''message'', JStr ''Mock data not available for this endpoint''),
        (''_isMockData'', JBool True)])"

definition fullUrl :: "api \<Rightarrow> string \<Rightarrow> string" where
  "fullUrl a endpoint = baseURL a @ ''/'' @ apiKey a @ endpoint"

text \<open>The cache test of \<^verbatim>\<open>fetchData\<close>: the payload of an entry that is present and fresh.\<close>

definition cacheHit :: "api \<Rightarrow> int \<Rightarrow> string \<Rightarrow> jsval option" where
  "cacheHit a now cacheKey =
     (case cache a cacheKey of
        Some cached \<Rightarrow> if now - timestamp cached < cacheExpiry a then Some (data cached) else None
      | None \<Rightarrow> None)"

text \<open>The body of the \<^verbatim>\<open>try\<close> block: the live request, and the cache write on success.\<close>

definition liveFetch :: "api \<Rightarrow> tick \<Rightarrow> string \<Rightarrow> (exn + jsval) \<times> api" where
  "liveFetch a t endpoint =
     (case live t of
        NetworkError \<Rightarrow> (Inl NetworkFailure, a)
      | HttpResponse ok status statusText body \<Rightarrow>
          if ok then
            (case body of
               None \<Rightarrow> (Inl SyntaxError, a)
             | Some d \<Rightarrow>
                 (Inr d, a\<lparr>cache := (cache a)(endpoint \<mapsto> \<lparr>data = d, timestamp = now_store t\<rparr>)\<rparr>))
          else (Inl (Error (''API request failed: '' @ showInt status @ '' - '' @ statusText)), a))"

text \<open>
  \<^verbatim>\<open>fetchData\<close> returns its result (a value, or the exception it lets escape), the API
  object afterwards, and the URLs it requested from the network.
\<close>

definition fetchData :: "runtime \<Rightarrow> api \<Rightarrow> tick \<Rightarrow> string \<Rightarrow> (exn + jsval) \<times> api \<times> string list" where
  "fetchData rt a t endpoint =
     (case cacheHit a (now_check t) endpoint of
        Some d \<Rightarrow> (Inr d, a, [])
      | None \<Rightarrow>
          (case liveFetch a t endpoint of
             (Inr d, a') \<Rightarrow> (Inr d, a', [fullUrl a endpoint])
           | (Inl error, a') \<Rightarrow> (Inr (getMockData rt (now_mock t) endpoint), a', [fullUrl a endpoint])))"

text \<open>
  A call that finds no fresh entry suspends at \<^verbatim>\<open>await fetch(...)\<close>, between the cache test
  and the cache write. \<open>resume\<close> is the rest of such a call, from the outcome of the
  request on.
\<close>

definition resume :: "runtime \<Rightarrow> api \<Rightarrow> tick \<Rightarrow> string \<Rightarrow> (exn + jsval) \<times> api \<times> string list" where
  "resume rt a t endpoint =
     (case liveFetch a t endpoint of
        (Inr d, a') \<Rightarrow> (Inr d, a', [fullUrl a endpoint])
      | (Inl error, a') \<Rightarrow> (Inr (getMockData rt (now_mock t) endpoint), a', [fullUrl a endpoint]))"

text \<open>
  Two calls for one endpoint, the second begun while the first is suspended: both cache
  tests see the API object as it was, then the first call resumes, then the second. A
  call that finds a fresh entry returns without suspending. The result is the pair of the
  two results.
\<close>

definition fetchDataOverlapping ::
  "runtime \<Rightarrow> api \<Rightarrow> tick \<Rightarrow> tick \<Rightarrow> string
     \<Rightarrow> ((exn + jsval) \<times> (exn + jsval)) \<times> api \<times> string list" where
  "fetchDataOverlapping rt a t1 t2 endpoint =
     (case cacheHit a (now_check t1) endpoint of
        Some d1 \<Rightarrow>
          (case fetchData rt a t2 endpoint of (r2, a2, q2) \<Rightarrow> ((Inr d1, r2), a2, q2))
      | None \<Rightarrow>
          (case cacheHit a (now_check t2) endpoint of
             Some d2 \<Rightarrow>
               (case resume rt a t1 endpoint of (r1, a1, q1) \<Rightarrow> ((r1, Inr d2), a1, q1))
           | None \<Rightarrow>
               (case resume rt a t1 endpoint of
                  (r1, a1, q1) \<Rightarrow>
                    (case resume rt a1 t2 endpoint of
                       (r2, a2, q2) \<Rightarrow> ((r1, r2), a2, q1 @ q2)))))"

text \<open>The live request fails: the promise rejects, the status is not ok, or the body does not parse.\<close>

definition liveFails :: "response \<Rightarrow> bool" where
  "liveFails r = (case r of NetworkError \<Rightarrow> True | HttpResponse ok status statusText body \<Rightarrow> \<not> ok \<or> body = None)"

subsection \<open>Static configuration\<close>

definition competitionNames :: "(string \<times> string) list" where
  "competitionNames =
     [(''PL'', ''Premier League''), (''PD'', ''La Liga''), (''SA'', ''Serie A''),
      (''BL1'', ''Bundesliga''), (''FL1'', ''Ligue 1'')]"

definition getCompetitionName :: "string \<Rightarrow> string member" where
  "getCompetitionName code = lookupOr competitionNames code ''Football League''"

definition countryMap :: "(string \<times> string) list" where
  "countryMap =
     [(''PL'', ''England''), (''PD'', ''Spain''), (''SA'', ''Italy''), (''BL1'', ''Germany''),
      (''FL1'', ''France'')]"

definition getCountryForCompetition :: "string \<Rightarrow> string member" where
  "getCountryForCompetition competition = lookupOr countryMap competition ''England''"

definition leagueNames :: "(string \<times> string) list" where
  "leagueNames =
     [(''PL'', ''English_Premier_League''), (''PD'', ''Spanish_La_Liga''), (''SA'', ''Italian_Serie_A''),
      (''BL1'', ''German_Bundesliga''), (''FL1'', ''French_Ligue_1'')]"

definition getLeagueName :: "string \<Rightarrow> string member" where
  "getLeagueName competition = lookupOr leagueNames competition ''English_Premier_League''"

text \<open>The three components of what a call returns.\<close>

definition returned :: "'r \<times> api \<times> string list \<Rightarrow> 'r" where
  "returned x = fst x"

definition apiAfter :: "'r \<times> api \<times> string list \<Rightarrow> api" where
  "apiAfter x = fst (snd x)"

definition requested :: "'r \<times> api \<times> string list \<Rightarrow> string list" where
  "requested x = snd (snd x)"

subsection \<open>Normalised records\<close>

text \<open>
  The objects the normaliser builds. A field that copies a payload property keeps the
  JSON value; a field computed with \<^verbatim>\<open>parseInt(...) || d\<close> is a number.
\<close>

record team_ref =
  team_id :: jsval
  team_name :: jsval
  shortName :: jsval
  tla :: jsval
  crest :: jsval

record team = team_ref +
  founded :: "int option"
  venue :: jsval
  website :: jsval
  location :: jsval

record standings_row =
  position :: int
  team :: team_ref
  playedGames :: int
  won :: int
  draw :: int
  lost :: int
  points :: int
  goalsFor :: int
  goalsAgainst :: int
  goalDifference :: int
  form :: jsval

record standings_group =
  stage :: string
  group_type :: string
  table :: "standings_row list member"

record competition_ref =
  competition_name :: "string member"
  competition_code :: string

record standings_result =
  standings :: "standings_group list"
  competition :: competition_ref
  season :: string

text \<open>\<^verbatim>\<open>array.map(f)\<close> where \<open>f\<close> may throw: the first exception ends the loop.\<close>

fun mapIndexedE :: "('a \<Rightarrow> nat \<Rightarrow> exn + 'b) \<Rightarrow> 'a list \<Rightarrow> nat \<Rightarrow> exn + 'b list" where
  "mapIndexedE f [] index = Inr []"
| "mapIndexedE f (x # xs) index =
     bindE (f x index) (\<lambda>y. bindE (mapIndexedE f xs (Suc index)) (\<lambda>ys. Inr (y # ys)))"

definition mapE :: "('a \<Rightarrow> exn + 'b) \<Rightarrow> 'a list \<Rightarrow> exn + 'b list" where
  "mapE f xs = mapIndexedE (\<lambda>x index. f x) xs 0"

definition defaultBadge :: string where
  "defaultBadge = ''https://www.thesportsdb.com/images/media/team/badge/default.png''"

text \<open>
  \<^verbatim>\<open>s?.substring(0, 3).toUpperCase()\<close>: the chain stops at \<^verbatim>\<open>undefined\<close> for a missing
  name; a value that is neither missing nor a string has no \<^verbatim>\<open>substring\<close> method, and the
  call throws.
\<close>

definition tlaOf :: "runtime \<Rightarrow> jsval \<Rightarrow> exn + jsval" where
  "tlaOf rt s =
     (case s of
        JUndefined \<Rightarrow> Inr JUndefined
      | JNull \<Rightarrow> Inr JUndefined
      | JStr str \<Rightarrow> Inr (JStr (toUpperCase rt (take 3 str)))
      | _ \<Rightarrow> Inl TypeError)"

text \<open>\<^verbatim>\<open>season || '2024-2025'\<close> for the optional parameter.\<close>

definition seasonOrDefault :: "string option \<Rightarrow> string" where
  "seasonOrDefault season' = (case season' of Some s \<Rightarrow> if s = [] then ''2024-2025'' else s | None \<Rightarrow> ''2024-2025'')"

subsection \<open>fetchStandings\<close>

text \<open>
  The function mapped over \<^verbatim>\<open>data.table\<close>. Reading a property of a \<^verbatim>\<open>null\<close> row throws.
  The right operand of the \<^verbatim>\<open>||\<close> in \<^verbatim>\<open>goalDifference\<close> parses the same two properties
  again, with the same results as for \<^verbatim>\<open>goalsFor\<close> and \<^verbatim>\<open>goalsAgainst\<close>.
\<close>

definition standingsRow :: "runtime \<Rightarrow> jsval \<Rightarrow> nat \<Rightarrow> exn + standings_row" where
  "standingsRow rt t index =
     (if nullish t then Inl TypeError else
      bindE (parseIntOr (field t ''intRank'') (int index + 1)) (\<lambda>position'.
      bindE (tlaOf rt (field t ''strTeam'')) (\<lambda>tla'.
      bindE (parseIntOr (field t ''intPlayed'') 0) (\<lambda>playedGames'.
      bindE (parseIntOr (field t ''intWin'') 0) (\<lambda>won'.
      bindE (parseIntOr (field t ''intDraw'') 0) (\<lambda>draw'.
      bindE (parseIntOr (field t ''intLoss'') 0) (\<lambda>lost'.
      bindE (parseIntOr (field t ''intPoints'') 0) (\<lambda>points'.
      bindE (parseIntOr (field t ''intGoalsFor'') 0) (\<lambda>goalsFor'.
      bindE (parseIntOr (field t ''intGoalsAgainst'') 0) (\<lambda>goalsAgainst'.
      bindE (parseInt (field t ''intGoalDifference'')) (\<lambda>explicit.
      Inr \<lparr> position = position',
            team = \<lparr> team_id = field t ''idTeam'',
                     team_name = field t ''strTeam'',
                     shortName = field t ''strTeam'',
                     tla = tla',
                     crest = orElse (field t ''strBadge'') (JStr defaultBadge) \<rparr>,
            playedGames = playedGames',
            won = won',
            draw = draw',
            lost = lost',
            points = points',
            goalsFor = goalsFor',
            goalsAgainst = goalsAgainst',
            goalDifference = orInt explicit (goalsFor' - goalsAgainst'),
            form = orElse (field t ''strForm'') (JStr ''N/A'') \<rparr>)))))))))))"

definition mockRow ::
  "int \<Rightarrow> string \<Rightarrow> string \<Rightarrow> string \<Rightarrow> int \<Rightarrow> int \<Rightarrow> int \<Rightarrow> int \<Rightarrow> int \<Rightarrow> int \<Rightarrow> int \<Rightarrow> int \<Rightarrow> string
     \<Rightarrow> standings_row" where
  "mockRow position' name' tla' crest' playedGames' won' draw' lost' points' goalsFor' goalsAgainst'
      goalDifference' form' =
     \<lparr> position = position',
       team = \<lparr> team_id = JUndefined, team_name = JStr name', shortName = JUndefined,
                tla = JStr tla', crest = JStr crest' \<rparr>,
       playedGames = playedGames', won = won', draw = draw', lost = lost', points = points',
       goalsFor = goalsFor', goalsAgainst = goalsAgainst', goalDifference = goalDifference',
       form = JStr form' \<rparr>"

definition mockTables :: "(string \<times> (string \<times> standings_row list) list) list" where
  "mockTables =
    [(''PL'', [
       (''2024-2025'', [
          mockRow 1 ''Liverpool'' ''LIV'' ''https://www.thesportsdb.com/images/media/team/badge/liverpool.png'' 38 25 9 4 84 86 41 45 ''DLDLW'',
          mockRow 2 ''Arsenal'' ''ARS'' ''https://www.thesportsdb.com/images/media/team/badge/arsenal.png'' 38 20 14 4 74 69 34 35 ''WWDLD'',
          mockRow 3 ''Manchester City'' ''MCI'' ''https://www.thesportsdb.com/images/media/team/badge/man_city.png'' 38 21 8 9 71 72 44 28 ''WWDWW'',
          mockRow 4 ''Chelsea'' ''CHE'' ''https://www.thesportsdb.com/images/media/team/badge/chelsea.png'' 38 20 9 9 69 64 43 21 ''WWLWW'',
          mockRow 5 ''Newcastle United'' ''NEW'' ''https://www.thesportsdb.com/images/media/team/badge/newcastle.png'' 38 20 6 12 66 68 47 21 ''LLWDW'']),
       (''2023-2024'', [
          mockRow 1 ''Manchester City'' ''MCI'' ''https://www.thesportsdb.com/images/media/team/badge/man_city.png'' 38 28 7 3 91 96 34 62 ''WWWWW'',
          mockRow 2 ''Arsenal'' ''ARS'' ''https://www.thesportsdb.com/images/media/team/badge/arsenal.png'' 38 28 5 5 89 91 29 62 ''WWWWW'',
          mockRow 3 ''Liverpool'' ''LIV'' ''https://www.thesportsdb.com/images/media/team/badge/liverpool.png'' 38 24 10 4 82 86 41 45 ''WDWDL'',
          mockRow 4 ''Aston Villa'' ''AVL'' ''https://www.thesportsdb.com/images/media/team/badge/aston_villa.png'' 38 20 8 10 68 76 61 15 ''LDLDW'',
          mockRow 5 ''Tottenham'' ''TOT'' ''https://www.thesportsdb.com/images/media/team/badge/tottenham.png'' 38 20 6 12 66 74 61 13 ''WLWLL'']),
       (''2022-2023'', [
          mockRow 1 ''Manchester City'' ''MCI'' ''https://www.thesportsdb.com/images/media/team/badge/man_city.png'' 38 28 5 5 89 94 33 61 ''LDWWW'',
          mockRow 2 ''Arsenal'' ''ARS'' ''https://www.thesportsdb.com/images/media/team/badge/arsenal.png'' 38 26 6 6 84 88 43 45 ''WLLWW'',
          mockRow 3 ''Manchester United'' ''MUN'' ''https://www.thesportsdb.com/images/media/team/badge/man_united.png'' 38 23 6 9 75 58 43 15 ''WWWWL'',
          mockRow 4 ''Newcastle United'' ''NEW'' ''https://www.thesportsdb.com/images/media/team/badge/newcastle.png'' 38 19 14 5 71 68 33 35 ''DDWDL'',
          mockRow 5 ''Liverpool'' ''LIV'' ''https://www.thesportsdb.com/images/media/team/badge/liverpool.png'' 38 19 10 9 67 75 47 28 ''DDWWW''])]),
     (''PD'', [
       (''2024-2025'', [
          mockRow 1 ''Real Madrid'' ''RMA'' ''https://www.thesportsdb.com/images/media/team/badge/real_madrid.png'' 38 30 6 2 96 89 24 65 ''WWWWW'',
          mockRow 2 ''Barcelona'' ''BAR'' ''https://www.thesportsdb.com/images/media/team/badge/barcelona.png'' 38 28 7 3 91 85 30 55 ''WDWWL'',
          mockRow 3 ''Atletico Madrid'' ''ATM'' ''https://www.thesportsdb.com/images/media/team/badge/atletico_madrid.png'' 38 25 8 5 83 72 38 34 ''WDWLW'',
          mockRow 4 ''Real Sociedad'' ''RSO'' ''https://www.thesportsdb.com/images/media/team/badge/real_sociedad.png'' 38 20 10 8 70 65 45 20 ''WWDLD'',
          mockRow 5 ''Athletic Bilbao'' ''ATH'' ''https://www.thesportsdb.com/images/media/team/badge/athletic_bilbao.png'' 38 19 13 6 70 61 37 24 ''DWDWW'']),
       (''2023-2024'', [
          mockRow 1 ''Real Madrid'' ''RMA'' ''https://www.thesportsdb.com/images/media/team/badge/real_madrid.png'' 38 29 6 3 95 87 26 61 ''WWWDW'',
          mockRow 2 ''Barcelona'' ''BAR'' ''https://www.thesportsdb.com/images/media/team/badge/barcelona.png'' 38 27 7 4 85 79 32 47 ''WDWWL'',
          mockRow 3 ''Girona'' ''GIR'' ''https://www.thesportsdb.com/images/media/team/badge/girona.png'' 38 25 8 5 81 85 46 39 ''WWLDW'',
          mockRow 4 ''Atletico Madrid'' ''ATM'' ''https://www.thesportsdb.com/images/media/team/badge/atletico_madrid.png'' 38 24 8 6 76 70 43 27 ''WDWLW'',
          mockRow 5 ''Athletic Bilbao'' ''ATH'' ''https://www.thesportsdb.com/images/media/team/badge/athletic_bilbao.png'' 38 19 13 6 68 61 37 24 ''DWDWW'']),
       (''2022-2023'', [
          mockRow 1 ''Barcelona'' ''BAR'' ''https://www.thesportsdb.com/images/media/team/badge/barcelona.png'' 38 28 4 6 88 70 20 50 ''WWWWL'',
          mockRow 2 ''Real Madrid'' ''RMA'' ''https://www.thesportsdb.com/images/media/team/badge/real_madrid.png'' 38 24 6 8 78 75 36 39 ''WLWWW'',
          mockRow 3 ''Atletico Madrid'' ''ATM'' ''https://www.thesportsdb.com/images/media/team/badge/atletico_madrid.png'' 38 23 8 7 77 70 33 37 ''WWDLW'',
          mockRow 4 ''Real Sociedad'' ''RSO'' ''https://www.thesportsdb.com/images/media/team/badge/real_sociedad.png'' 38 20 11 7 71 51 35 16 ''DWDLW'',
          mockRow 5 ''Villarreal'' ''VIL'' ''https://www.thesportsdb.com/images/media/team/badge/villarreal.png'' 38 19 7 12 64 59 37 22 ''WLWDL''])]),
     (''SA'', [
       (''2024-2025'', [
          mockRow 1 ''Inter Milan'' ''INT'' ''https://www.thesportsdb.com/images/media/team/badge/inter_milan.png'' 38 29 7 2 94 89 22 67 ''WWWWW'',
          mockRow 2 ''AC Milan'' ''MIL'' ''https://www.thesportsdb.com/images/media/team/badge/ac_milan.png'' 38 26 8 4 86 76 31 45 ''WDWWL'',
          mockRow 3 ''Juventus'' ''JUV'' ''https://www.thesportsdb.com/images/media/team/badge/juventus.png'' 38 24 10 4 82 64 29 35 ''DWDWW'',
          mockRow 4 ''Napoli'' ''NAP'' ''https://www.thesportsdb.com/images/media/team/badge/napoli.png'' 38 23 8 7 77 74 42 32 ''WWLDW'',
          mockRow 5 ''AS Roma'' ''ROM'' ''https://www.thesportsdb.com/images/media/team/badge/as_roma.png'' 38 20 9 9 69 65 45 20 ''WLWDL'']),
       (''2023-2024'', [
          mockRow 1 ''Inter Milan'' ''INT'' ''https://www.thesportsdb.com/images/media/team/badge/inter_milan.png'' 38 28 7 3 91 89 22 67 ''WWWWW'',
          mockRow 2 ''AC Milan'' ''MIL'' ''https://www.thesportsdb.com/images/media/team/badge/ac_milan.png'' 38 25 8 5 83 76 31 45 ''WDWWL'',
          mockRow 3 ''Juventus'' ''JUV'' ''https://www.thesportsdb.com/images/media/team/badge/juventus.png'' 38 23 10 5 79 64 29 35 ''DWDWW'',
          mockRow 4 ''Napoli'' ''NAP'' ''https://www.thesportsdb.com/images/media/team/badge/napoli.png'' 38 22 8 8 74 74 42 32 ''WWLDW'',
          mockRow 5 ''AS Roma'' ''ROM'' ''https://www.thesportsdb.com/images/media/team/badge/as_roma.png'' 38 19 9 10 66 65 45 20 ''WLWDL'']),
       (''2022-2023'', [
          mockRow 1 ''Napoli'' ''NAP'' ''https://www.thesportsdb.com/images/media/team/badge/napoli.png'' 38 28 8 2 90 77 28 49 ''WWWWW'',
          mockRow 2 ''Lazio'' ''LAZ'' ''https://www.thesportsdb.com/images/media/team/badge/lazio.png'' 38 22 7 9 73 60 35 25 ''WLWWL'',
          mockRow 3 ''Inter Milan'' ''INT'' ''https://www.thesportsdb.com/images/media/team/badge/inter_milan.png'' 38 23 4 11 73 71 42 29 ''LWWDW'',
          mockRow 4 ''AC Milan'' ''MIL'' ''https://www.thesportsdb.com/images/media/team/badge/ac_milan.png'' 38 20 12 6 72 57 40 17 ''DDWWL'',
          mockRow 5 ''Atalanta'' ''ATA'' ''https://www.thesportsdb.com/images/media/team/badge/atalanta.png'' 38 19 10 9 67 64 42 22 ''WDWLW''])]),
     (''BL1'', [
       (''2024-2025'', [
          mockRow 1 ''Bayern Munich'' ''BAY'' ''https://www.thesportsdb.com/images/media/team/badge/bayern_munich.png'' 34 26 6 2 84 94 27 67 ''WWWWW'',
          mockRow 2 ''Borussia Dortmund'' ''BVB'' ''https://www.thesportsdb.com/images/media/team/badge/borussia_dortmund.png'' 34 22 8 4 74 73 38 35 ''WDWWL'',
          mockRow 3 ''RB Leipzig'' ''RBL'' ''https://www.thesportsdb.com/images/media/team/badge/rb_leipzig.png'' 34 20 9 5 69 68 37 31 ''DWDWW'',
          mockRow 4 ''Bayer Leverkusen'' ''B04'' ''https://www.thesportsdb.com/images/media/team/badge/bayer_leverkusen.png'' 34 19 10 5 67 65 37 28 ''WWLDW'',
          mockRow 5 ''Eintracht Frankfurt'' ''SGE'' ''https://www.thesportsdb.com/images/media/team/badge/eintracht_frankfurt.png'' 34 18 7 9 61 58 44 14 ''WLWDL'']),
       (''2023-2024'', [
          mockRow 1 ''Bayer Leverkusen'' ''B04'' ''https://www.thesportsdb.com/images/media/team/badge/bayer_leverkusen.png'' 34 28 6 0 90 89 24 65 ''WWWWW'',
          mockRow 2 ''Bayern Munich'' ''BAY'' ''https://www.thesportsdb.com/images/media/team/badge/bayern_munich.png'' 34 24 8 2 80 94 45 49 ''WDWWL'',
          mockRow 3 ''VfB Stuttgart'' ''VFB'' ''https://www.thesportsdb.com/images/media/team/badge/vfb_stuttgart.png'' 34 23 4 7 73 78 39 39 ''WWLDW'',
          mockRow 4 ''RB Leipzig'' ''RBL'' ''https://www.thesportsdb.com/images/media/team/badge/rb_leipzig.png'' 34 19 9 6 66 68 37 31 ''DWDWW'',
          mockRow 5 ''Borussia Dortmund'' ''BVB'' ''https://www.thesportsdb.com/images/media/team/badge/borussia_dortmund.png'' 34 18 9 7 63 68 42 26 ''WLWDL'']),
       (''2022-2023'', [
          mockRow 1 ''Bayern Munich'' ''BAY'' ''https://www.thesportsdb.com/images/media/team/badge/bayern_munich.png'' 34 24 6 4 78 92 38 54 ''WWWWL'',
          mockRow 2 ''Borussia Dortmund'' ''BVB'' ''https://www.thesportsdb.com/images/media/team/badge/borussia_dortmund.png'' 34 22 7 5 73 84 38 46 ''WLWWW'',
          mockRow 3 ''RB Leipzig'' ''RBL'' ''https://www.thesportsdb.com/images/media/team/badge/rb_leipzig.png'' 34 22 6 6 72 64 35 29 ''DWDWW'',
          mockRow 4 ''Union Berlin'' ''FCU'' ''https://www.thesportsdb.com/images/media/team/badge/union_berlin.png'' 34 17 13 4 64 51 33 18 ''DDWLW'',
          mockRow 5 ''SC Freiburg'' ''SCF'' ''https://www.thesportsdb.com/images/media/team/badge/sc_freiburg.png'' 34 17 10 7 61 51 40 11 ''WDWLW''])]),
     (''FL1'', [
       (''2024-2025'', [
          mockRow 1 ''Paris Saint-Germain'' ''PSG'' ''https://www.thesportsdb.com/images/media/team/badge/psg.png'' 34 27 6 1 87 89 35 54 ''WWDWW'',
          mockRow 2 ''AS Monaco'' ''MON'' ''https://www.thesportsdb.com/images/media/team/badge/monaco.png'' 34 22 9 3 75 68 34 34 ''WDWWD'',
          mockRow 3 ''Marseille'' ''OM'' ''https://www.thesportsdb.com/images/media/team/badge/marseille.png'' 34 20 8 6 68 63 38 25 ''WWLDW'',
          mockRow 4 ''Lille'' ''LIL'' ''https://www.thesportsdb.com/images/media/team/badge/lille.png'' 34 18 10 6 64 54 35 19 ''LWWDW'',
          mockRow 5 ''Nice'' ''NIC'' ''https://www.thesportsdb.com/images/media/team/badge/nice.png'' 34 17 11 6 62 40 25 15 ''DDWWD'']),
       (''2023-2024'', [
          mockRow 1 ''Paris Saint-Germain'' ''PSG'' ''https://www.thesportsdb.com/images/media/team/badge/psg.png'' 34 26 6 2 84 89 35 54 ''WWDWW'',
          mockRow 2 ''AS Monaco'' ''MON'' ''https://www.thesportsdb.com/images/media/team/badge/monaco.png'' 34 21 9 4 72 68 34 34 ''WDWWD'',
          mockRow 3 ''Brest'' ''BRE'' ''https://www.thesportsdb.com/images/media/team/badge/brest.png'' 34 18 11 5 65 56 38 18 ''DWDWL'',
          mockRow 4 ''Lille'' ''LIL'' ''https://www.thesportsdb.com/images/media/team/badge/lille.png'' 34 18 10 6 64 54 35 19 ''LWWDW'',
          mockRow 5 ''Nice'' ''NIC'' ''https://www.thesportsdb.com/images/media/team/badge/nice.png'' 34 17 11 6 62 40 25 15 ''DDWWD'']),
       (''2022-2023'', [
          mockRow 1 ''Paris Saint-Germain'' ''PSG'' ''https://www.thesportsdb.com/images/media/team/badge/psg.png'' 38 29 6 3 85 89 31 58 ''WWWWL'',
          mockRow 2 ''RC Lens'' ''RCL'' ''https://www.thesportsdb.com/images/media/team/badge/rc_lens.png'' 38 25 7 6 84 68 35 33 ''WLWWW'',
          mockRow 3 ''Marseille'' ''OM'' ''https://www.thesportsdb.com/images/media/team/badge/marseille.png'' 38 24 9 5 73 63 34 29 ''WWLDW'',
          mockRow 4 ''Rennes'' ''SRE'' ''https://www.thesportsdb.com/images/media/team/badge/rennes.png'' 38 20 8 10 68 68 40 28 ''WDWLW'',
          mockRow 5 ''Lille'' ''LIL'' ''https://www.thesportsdb.com/images/media/team/badge/lille.png'' 38 19 10 9 67 54 35 19 ''LWWDW''])])]"

text \<open>
  \<^verbatim>\<open>x?.[key]\<close> on what \<^verbatim>\<open>mockTables[competition]\<close> gave, as far as the \<^verbatim>\<open>||\<close> chain needs
  it: \<open>None\<close> is a falsy result. A property of a built-in value is itself a built-in
  value (never an array); the runtime says whether reading it throws and whether it is
  truthy.
\<close>

definition readSeason ::
  "runtime \<Rightarrow> (string \<times> standings_row list) list member option \<Rightarrow> string
     \<Rightarrow> exn + standings_row list member option" where
  "readSeason rt x key =
     (case x of
        None \<Rightarrow> Inr None
      | Some (Own seasons) \<Rightarrow> Inr (lookup seasons key)
      | Some (Inherited p) \<Rightarrow>
          bindE (memberProperty rt (p @ [key])) (\<lambda>isTruthy.
          Inr (if isTruthy then Some (Inherited (p @ [key])) else None)))"

definition getMockStandingsData :: "runtime \<Rightarrow> string \<Rightarrow> string option \<Rightarrow> exn + standings_result" where
  "getMockStandingsData rt competition' season' =
     (let competitionType =
            (if competition' = ''CL'' \<or> competition' = ''EL'' then ''GROUP_STAGE'' else ''REGULAR_SEASON'')
      in bindE (readSeason rt (lookup mockTables competition') (seasonOrDefault season')) (\<lambda>first.
         bindE (case first of
                  Some v \<Rightarrow> Inr v
                | None \<Rightarrow>
                    bindE (readSeason rt (lookup mockTables competition') ''2024-2025'') (\<lambda>second.
                    Inr (case second of Some v \<Rightarrow> v | None \<Rightarrow> Own []))) (\<lambda>seasonData.
         Inr \<lparr> standings =
                 [\<lparr> stage = competitionType,
                    group_type = (if competitionType = ''GROUP_STAGE'' then ''GROUP'' else ''TOTAL''),
                    table = seasonData \<rparr>],
               competition =
                 \<lparr> competition_name = getCompetitionName competition',
                   competition_code = competition' \<rparr>,
               season = seasonOrDefault season' \<rparr>)))"

definition standingsEndpoint :: "runtime \<Rightarrow> string \<Rightarrow> string option \<Rightarrow> string" where
  "standingsEndpoint rt competition' season' =
     ''/lookuptable.php?l='' @ memberString rt (getLeagueId competition') @
     (case season' of Some s \<Rightarrow> if s = [] then [] else ''&s='' @ s | None \<Rightarrow> [])"

definition fetchStandings ::
  "runtime \<Rightarrow> api \<Rightarrow> tick \<Rightarrow> string \<Rightarrow> string option \<Rightarrow> (exn + standings_result) \<times> api \<times> string list" where
  "fetchStandings rt a t competition' season' =
     (case fetchData rt a t (standingsEndpoint rt competition' season') of
        (r, a', q) \<Rightarrow>
          (bindE r (\<lambda>data.
           bindE (get data ''table'') (\<lambda>rows.
             if truthy rows \<and> isArray rows then
               bindE (mapIndexedE (standingsRow rt) (elements rows) 0) (\<lambda>table'.
               Inr \<lparr> standings =
                       [\<lparr> stage = ''REGULAR_SEASON'', group_type = ''TOTAL'', table = Own table' \<rparr>],
                     competition =
                       \<lparr> competition_name = getCompetitionName competition',
                         competition_code = competition' \<rparr>,
                     season = seasonOrDefault season' \<rparr>)
             else getMockStandingsData rt competition' season')),
           a', q))"

subsection \<open>fetchTeams\<close>

record teams_result =
  teams :: "team list"
  teams_count :: nat

text \<open>The two functions mapped over \<^verbatim>\<open>data.teams\<close> and over \<^verbatim>\<open>data.table\<close>.\<close>

definition teamFromSearch :: "runtime \<Rightarrow> jsval \<Rightarrow> exn + team" where
  "teamFromSearch rt t =
     (if nullish t then Inl TypeError else
      bindE (if truthy (field t ''strTeamShort'') then Inr (field t ''strTeamShort'')
             else tlaOf rt (field t ''strTeam'')) (\<lambda>tla'.
      bindE (parseInt (field t ''intFormedYear'')) (\<lambda>year.
      Inr \<lparr> team_id = field t ''idTeam'',
            team_name = field t ''strTeam'',
            shortName = orElse (field t ''strTeamShort'') (field t ''strTeam''),
            tla = tla',
            crest = orElse (field t ''strBadge'') (orElse (field t ''strTeamBadge'') (JStr defaultBadge)),
            founded = (case year of NaN \<Rightarrow> None | Num n \<Rightarrow> if n = 0 then None else Some n),
            venue = orElse (field t ''strStadium'') (JStr ''Unknown Stadium''),
            website = orElse (field t ''strWebsite'') (JStr ''''),
            location = orElse (field t ''strLocation'') (orElse (field t ''strCountry'') (JStr '''')) \<rparr>)))"

definition teamFromTable :: "runtime \<Rightarrow> jsval \<Rightarrow> exn + team" where
  "teamFromTable rt t =
     (if nullish t then Inl TypeError else
      bindE (tlaOf rt (field t ''strTeam'')) (\<lambda>tla'.
      Inr \<lparr> team_id = field t ''idTeam'',
            team_name = field t ''strTeam'',
            shortName = field t ''strTeam'',
            tla = tla',
            crest = orElse (field t ''strBadge'') (JStr defaultBadge),
            founded = None,
            venue = JStr ''Unknown Stadium'',
            website = JStr '''',
            location = JStr '''' \<rparr>))"

definition mockTeam ::
  "string \<Rightarrow> string \<Rightarrow> string \<Rightarrow> string \<Rightarrow> string \<Rightarrow> int \<Rightarrow> string \<Rightarrow> string \<Rightarrow> string \<Rightarrow> team" where
  "mockTeam id' name' shortName' tla' crest' founded' venue' website' location' =
     \<lparr> team_id = JStr id', team_name = JStr name', shortName = JStr shortName', tla = JStr tla',
       crest = JStr crest', founded = Some founded', venue = JStr venue', website = JStr website',
       location = JStr location' \<rparr>"

definition mockTeams :: "(string \<times> team list) list" where
  "mockTeams =
    [(''PL'', [
       mockTeam ''133604'' ''Arsenal'' ''Arsenal'' ''ARS'' ''https://www.thesportsdb.com/images/media/team/badge/arsenal.png'' 1886 ''Emirates Stadium'' ''www.arsenal.com'' ''London, England'',
       mockTeam ''133612'' ''Chelsea'' ''Chelsea'' ''CHE'' ''https://www.thesportsdb.com/images/media/team/badge/chelsea.png'' 1905 ''Stamford Bridge'' ''www.chelseafc.com'' ''London, England'',
       mockTeam ''133602'' ''Liverpool'' ''Liverpool'' ''LIV'' ''https://www.thesportsdb.com/images/media/team/badge/liverpool.png'' 1892 ''Anfield'' ''www.liverpoolfc.com'' ''Liverpool, England'',
       mockTeam ''133613'' ''Manchester City'' ''Man City'' ''MCI'' ''https://www.thesportsdb.com/images/media/team/badge/man_city.png'' 1880 ''Etihad Stadium'' ''www.mancity.com'' ''Manchester, England'',
       mockTeam ''133614'' ''Manchester United'' ''Man United'' ''MUN'' ''https://www.thesportsdb.com/images/media/team/badge/man_united.png'' 1878 ''Old Trafford'' ''www.manutd.com'' ''Manchester, England'',
       mockTeam ''133615'' ''Tottenham Hotspur'' ''Tottenham'' ''TOT'' ''https://www.thesportsdb.com/images/media/team/badge/tottenham.png'' 1882 ''Tottenham Hotspur Stadium'' ''www.tottenhamhotspur.com'' ''London, England'',
       mockTeam ''133599'' ''Wolverhampton Wanderers'' ''Wolves'' ''WOL'' ''https://www.thesportsdb.com/images/media/team/badge/wolves.png'' 1877 ''Molineux Stadium'' ''www.wolves.co.uk'' ''Wolverhampton, England'',
       mockTeam ''134355'' ''Brentford'' ''Brentford'' ''BRE'' ''https://www.thesportsdb.com/images/media/team/badge/brentford.png'' 1889 ''Brentford Community Stadium'' ''www.brentfordfc.com'' ''London, England'',
       mockTeam ''133616'' ''Newcastle United'' ''Newcastle'' ''NEW'' ''https://www.thesportsdb.com/images/media/team/badge/newcastle.png'' 1892 (''St. James'' @ [CHR 0x27] @ '' Park'') ''www.nufc.co.uk'' ''Newcastle, England'',
       mockTeam ''133617'' ''Aston Villa'' ''Aston Villa'' ''AVL'' ''https://www.thesportsdb.com/images/media/team/badge/aston_villa.png'' 1874 ''Villa Park'' ''www.avfc.co.uk'' ''Birmingham, England'']),
     (''PD'', [
       mockTeam ''134301'' ''Real Madrid'' ''Real Madrid'' ''RMA'' ''https://www.thesportsdb.com/images/media/team/badge/real_madrid.png'' 1902 (''Santiago Bernab'' @ [CHR 0xE9] @ ''u'') ''www.realmadrid.com'' ''Madrid, Spain'',
       mockTeam ''134302'' ''Barcelona'' ''Barcelona'' ''BAR'' ''https://www.thesportsdb.com/images/media/team/badge/barcelona.png'' 1899 ''Camp Nou'' ''www.fcbarcelona.com'' ''Barcelona, Spain'',
       mockTeam ''134303'' ''Atletico Madrid'' ''Atletico'' ''ATM'' ''https://www.thesportsdb.com/images/media/team/badge/atletico_madrid.png'' 1903 ''Wanda Metropolitano'' ''www.atleticodemadrid.com'' ''Madrid, Spain'',
       mockTeam ''134304'' ''Sevilla'' ''Sevilla'' ''SEV'' ''https://www.thesportsdb.com/images/media/team/badge/sevilla.png'' 1890 (''Ram'' @ [CHR 0xF3] @ ''n S'' @ [CHR 0xE1] @ ''nchez Pizju'' @ [CHR 0xE1] @ ''n'') ''www.sevillafc.es'' ''Sevilla, Spain'',
       mockTeam ''134305'' ''Valencia'' ''Valencia'' ''VAL'' ''https://www.thesportsdb.com/images/media/team/badge/valencia.png'' 1919 ''Mestalla'' ''www.valenciacf.com'' ''Valencia, Spain'']),
     (''SA'', [
       mockTeam ''135301'' ''Inter Milan'' ''Inter'' ''INT'' ''https://www.thesportsdb.com/images/media/team/badge/inter_milan.png'' 1908 ''San Siro'' ''www.inter.it'' ''Milan, Italy'',
       mockTeam ''135302'' ''AC Milan'' ''Milan'' ''MIL'' ''https://www.thesportsdb.com/images/media/team/badge/ac_milan.png'' 1899 ''San Siro'' ''www.acmilan.com'' ''Milan, Italy'',
       mockTeam ''135303'' ''Juventus'' ''Juventus'' ''JUV'' ''https://www.thesportsdb.com/images/media/team/badge/juventus.png'' 1897 ''Allianz Stadium'' ''www.juventus.com'' ''Turin, Italy'',
       mockTeam ''135304'' ''Napoli'' ''Napoli'' ''NAP'' ''https://www.thesportsdb.com/images/media/team/badge/napoli.png'' 1926 ''Stadio Diego Armando Maradona'' ''www.sscnapoli.it'' ''Naples, Italy'',
       mockTeam ''135305'' ''AS Roma'' ''Roma'' ''ROM'' ''https://www.thesportsdb.com/images/media/team/badge/as_roma.png'' 1927 ''Stadio Olimpico'' ''www.asroma.com'' ''Rome, Italy'']),
     (''BL1'', [
       mockTeam ''136301'' ''Bayern Munich'' ''Bayern'' ''BAY'' ''https://www.thesportsdb.com/images/media/team/badge/bayern_munich.png'' 1900 ''Allianz Arena'' ''www.fcbayern.com'' ''Munich, Germany'',
       mockTeam ''136302'' ''Borussia Dortmund'' ''Dortmund'' ''BVB'' ''https://www.thesportsdb.com/images/media/team/badge/borussia_dortmund.png'' 1909 ''Signal Iduna Park'' ''www.bvb.de'' ''Dortmund, Germany'',
       mockTeam ''136303'' ''RB Leipzig'' ''Leipzig'' ''RBL'' ''https://www.thesportsdb.com/images/media/team/badge/rb_leipzig.png'' 2009 ''Red Bull Arena'' ''www.rbleipzig.com'' ''Leipzig, Germany'',
       mockTeam ''136304'' ''Bayer Leverkusen'' ''Leverkusen'' ''B04'' ''https://www.thesportsdb.com/images/media/team/badge/bayer_leverkusen.png'' 1904 ''BayArena'' ''www.bayer04.de'' ''Leverkusen, Germany'',
       mockTeam ''136305'' ''Eintracht Frankfurt'' ''Frankfurt'' ''SGE'' ''https://www.thesportsdb.com/images/media/team/badge/eintracht_frankfurt.png'' 1899 ''Deutsche Bank Park'' ''www.eintracht.de'' ''Frankfurt, Germany'']),
     (''FL1'', [
       mockTeam ''137301'' ''Paris Saint-Germain'' ''PSG'' ''PSG'' ''https://www.thesportsdb.com/images/media/team/badge/psg.png'' 1970 ''Parc des Princes'' ''www.psg.fr'' ''Paris, France'',
       mockTeam ''137302'' ''AS Monaco'' ''Monaco'' ''MON'' ''https://www.thesportsdb.com/images/media/team/badge/monaco.png'' 1924 ''Stade Louis II'' ''www.asmonaco.com'' ''Monaco'',
       mockTeam ''137303'' ''Marseille'' ''Marseille'' ''OM'' ''https://www.thesportsdb.com/images/media/team/badge/marseille.png'' 1899 (''Orange V'' @ [CHR 0xE9] @ ''lodrome'') ''www.om.fr'' ''Marseille, France'',
       mockTeam ''137304'' ''Lille'' ''Lille'' ''LIL'' ''https://www.thesportsdb.com/images/media/team/badge/lille.png'' 1944 ''Stade Pierre-Mauroy'' ''www.losc.fr'' ''Lille, France'',
       mockTeam ''137305'' ''Nice'' ''Nice'' ''NIC'' ''https://www.thesportsdb.com/images/media/team/badge/nice.png'' 1904 ''Allianz Riviera'' ''www.ogcnice.com'' ''Nice, France''])]"

text \<open>\<^verbatim>\<open>mockTeams[competition] || mockTeams['PL']\<close>: a list, or an inherited member.\<close>

definition getMockTeamsForCompetition :: "string \<Rightarrow> team list member" where
  "getMockTeamsForCompetition competition' =
     (case lookup mockTeams competition' of
        Some m \<Rightarrow> m
      | None \<Rightarrow> (case lookup mockTeams ''PL'' of Some m \<Rightarrow> m | None \<Rightarrow> Own []))"

definition teamEndpoints :: "runtime \<Rightarrow> string \<Rightarrow> string option \<Rightarrow> string list" where
  "teamEndpoints rt competition' season' =
     [''/search_all_teams.php?l='' @ memberString rt (getLeagueName competition'),
      ''/lookuptable.php?l='' @ memberString rt (getLeagueId competition') @ ''&s='' @ seasonOrDefault season',
      ''/search_all_teams.php?s=Soccer&c='' @ memberString rt (getCountryForCompetition competition')]"

text \<open>What the \<^verbatim>\<open>try\<close> block of the loop makes of one payload.\<close>

definition teamsOfPayload :: "runtime \<Rightarrow> jsval \<Rightarrow> exn + team list" where
  "teamsOfPayload rt d =
     bindE (get d ''teams'') (\<lambda>found.
       if truthy found \<and> isArray found then mapE (teamFromSearch rt) (elements found)
       else bindE (get d ''table'') (\<lambda>rows.
         if truthy rows \<and> isArray rows then mapE (teamFromTable rt) (elements rows)
         else Inr []))"

text \<open>
  One round of the loop over the endpoints: the state is \<^verbatim>\<open>allTeams\<close>, the API object and
  the URLs requested so far. An exception in the \<^verbatim>\<open>try\<close> block is logged and the loop
  continues.
\<close>

definition probe :: "runtime \<Rightarrow> team list \<times> api \<times> string list \<Rightarrow> tick \<times> string \<Rightarrow> team list \<times> api \<times> string list" where
  "probe rt s te =
     (case s of (allTeams, a, q) \<Rightarrow>
      case te of (t, endpoint) \<Rightarrow>
      case fetchData rt a t endpoint of (r, a', q') \<Rightarrow>
        (case bindE r (teamsOfPayload rt) of
           Inr found \<Rightarrow> (allTeams @ found, a', q @ q')
         | Inl error \<Rightarrow> (allTeams, a', q @ q')))"

fun findIndexFrom :: "('a \<Rightarrow> bool) \<Rightarrow> 'a list \<Rightarrow> nat \<Rightarrow> int" where
  "findIndexFrom p [] i = - 1"
| "findIndexFrom p (x # xs) i = (if p x then int i else findIndexFrom p xs (Suc i))"

definition findIndex :: "('a \<Rightarrow> bool) \<Rightarrow> 'a list \<Rightarrow> int" where
  "findIndex p xs = findIndexFrom p xs 0"

text \<open>
  \<^verbatim>\<open>allTeams.filter((team, index, self) => index === self.findIndex(t => t.id === team.id))\<close>.
  The callback of \<^verbatim>\<open>findIndex\<close> compares a team with itself when it reaches \<open>index\<close>,
  which is true for every identifier.
\<close>

definition uniqueTeams :: "team list \<Rightarrow> team list" where
  "uniqueTeams allTeams =
     map snd (filter
       (\<lambda>(index, t). int index =
          findIndex (\<lambda>(j, u). j = index \<or> strictEquals (team_id u) (team_id t)) (enumerate 0 allTeams))
       (enumerate 0 allTeams))"

text \<open>\<^verbatim>\<open>existingIds.has(v)\<close> for the set built from a list of identifiers.\<close>

definition has :: "jsval list \<Rightarrow> jsval \<Rightarrow> bool" where
  "has existingIds v = (\<exists>y \<in> set existingIds. strictEquals y v)"

text \<open>The part of \<^verbatim>\<open>fetchTeams\<close> after the loop: de-duplicate, then top up.\<close>

definition completeTeams :: "string \<Rightarrow> team list \<Rightarrow> exn + teams_result" where
  "completeTeams competition' allTeams =
     (let unique = uniqueTeams allTeams in
      if length unique < 10 then
        (case getMockTeamsForCompetition competition' of
           Own mocks \<Rightarrow>
             (let existingIds = map team_id unique;
                  additionalTeams = filter (\<lambda>t. \<not> has existingIds (team_id t)) mocks;
                  result = unique @ additionalTeams
              in Inr \<lparr> teams = result, teams_count = length result \<rparr>)
         | Inherited p \<Rightarrow> Inl TypeError)
      else Inr \<lparr> teams = unique, teams_count = length unique \<rparr>)"

definition fetchTeams ::
  "runtime \<Rightarrow> api \<Rightarrow> tick \<Rightarrow> tick \<Rightarrow> tick \<Rightarrow> string \<Rightarrow> string option
     \<Rightarrow> (exn + teams_result) \<times> api \<times> string list" where
  "fetchTeams rt a t1 t2 t3 competition' season' =
     (case foldl (probe rt) ([], a, []) (zip [t1, t2, t3] (teamEndpoints rt competition' season')) of
        (allTeams, a', q) \<Rightarrow> (completeTeams competition' allTeams, a', q))"


subsection \<open>fetchMatches and fetchCompetitionMatches\<close>

record match =
  match_id :: jsval
  homeTeam :: team_ref
  awayTeam :: team_ref
  utcDate :: string
  status :: string
  score_home :: "number option"
  score_away :: "number option"
  match_competition :: "string member"
  match_season :: jsval
  matchday :: "number option"

record matches_result =
  matches :: "match list"
  matches_count :: nat

text \<open>\<^verbatim>\<open>v ? parseInt(v) : null\<close>; \<open>None\<close> is \<^verbatim>\<open>null\<close>.\<close>

definition parseIntOrNull :: "jsval \<Rightarrow> exn + number option" where
  "parseIntOrNull v = (if truthy v then bindE (parseInt v) (\<lambda>x. Inr (Some x)) else Inr None)"

definition statusOf :: "jsval \<Rightarrow> string" where
  "statusOf strStatus =
     (if strStatus = JStr ''Match Finished'' then ''FINISHED''
      else if strStatus = JStr ''Not Started'' then ''SCHEDULED''
      else ''IN_PLAY'')"

text \<open>
  The function mapped over \<^verbatim>\<open>data.events\<close>, the same in both fetchers but for the
  competition name.
\<close>

definition eventToMatch :: "runtime \<Rightarrow> string member \<Rightarrow> string option \<Rightarrow> jsval \<Rightarrow> exn + match" where
  "eventToMatch rt competitionName season' event =
     (if nullish event then Inl TypeError else
      bindE (tlaOf rt (field event ''strHomeTeam'')) (\<lambda>homeTla.
      bindE (tlaOf rt (field event ''strAwayTeam'')) (\<lambda>awayTla.
      bindE (toString (field event ''dateEvent'')) (\<lambda>date.
      bindE (toString (orElse (field event ''strTime'') (JStr ''15:00:00''))) (\<lambda>time.
      bindE (parseIntOrNull (field event ''intHomeScore'')) (\<lambda>home.
      bindE (parseIntOrNull (field event ''intAwayScore'')) (\<lambda>away.
      bindE (parseIntOrNull (field event ''intRound'')) (\<lambda>round.
      Inr \<lparr> match_id = field event ''idEvent'',
            homeTeam = \<lparr> team_id = field event ''idHomeTeam'',
                         team_name = field event ''strHomeTeam'',
                         shortName = field event ''strHomeTeam'',
                         tla = homeTla,
                         crest = orElse (field event ''strHomeTeamBadge'') (JStr defaultBadge) \<rparr>,
            awayTeam = \<lparr> team_id = field event ''idAwayTeam'',
                         team_name = field event ''strAwayTeam'',
                         shortName = field event ''strAwayTeam'',
                         tla = awayTla,
                         crest = orElse (field event ''strAwayTeamBadge'') (JStr defaultBadge) \<rparr>,
            utcDate = date @ ''T'' @ time @ ''Z'',
            status = statusOf (field event ''strStatus''),
            score_home = home,
            score_away = away,
            match_competition = competitionName,
            match_season = orElse (field event ''strSeason'') (JStr (seasonOrDefault season')),
            matchday = round \<rparr>))))))))"

text \<open>
  \<^verbatim>\<open>fetchMatches\<close> tests \<^verbatim>\<open>data.events\<close> for truthiness only: a truthy value that is not an
  array has no \<^verbatim>\<open>map\<close> method, and the call throws.
\<close>

definition fetchMatches ::
  "runtime \<Rightarrow> api \<Rightarrow> tick \<Rightarrow> string option \<Rightarrow> (exn + matches_result) \<times> api \<times> string list" where
  "fetchMatches rt a t season' =
     (case fetchData rt a t ''/eventsnextleague.php?id=4328'' of
        (r, a', q) \<Rightarrow>
          (bindE r (\<lambda>d.
           bindE (get d ''events'') (\<lambda>events.
             if truthy events then
               (if isArray events then
                  bindE (mapE (eventToMatch rt (Own ''Premier League'') season') (elements events)) (\<lambda>ms.
                  Inr \<lparr> matches = ms, matches_count = length ms \<rparr>)
                else Inl TypeError)
             else Inr \<lparr> matches = [], matches_count = 0 \<rparr>)),
           a', q))"

text \<open>\<^verbatim>\<open>events.filter(event => event.strSeason === season)\<close>; a \<^verbatim>\<open>null\<close> event throws.\<close>

fun filterSeason :: "string \<Rightarrow> jsval list \<Rightarrow> exn + jsval list" where
  "filterSeason s [] = Inr []"
| "filterSeason s (event # events) =
     (if nullish event then Inl TypeError
      else bindE (filterSeason s events) (\<lambda>rest.
        Inr (if field event ''strSeason'' = JStr s then event # rest else rest)))"

definition fetchCompetitionMatches ::
  "runtime \<Rightarrow> api \<Rightarrow> tick \<Rightarrow> string \<Rightarrow> string option \<Rightarrow> (exn + matches_result) \<times> api \<times> string list" where
  "fetchCompetitionMatches rt a t competition' season' =
     (case fetchData rt a t (''/eventspastleague.php?id='' @ memberString rt (getLeagueId competition')) of
        (r, a', q) \<Rightarrow>
          (bindE r (\<lambda>d.
           bindE (get d ''events'') (\<lambda>events.
             if truthy events \<and> isArray events then
               bindE (case season' of
                        Some s \<Rightarrow> if s = [] then Inr (elements events) else filterSeason s (elements events)
                      | None \<Rightarrow> Inr (elements events)) (\<lambda>selected.
               bindE (mapE (eventToMatch rt (getCompetitionName competition') season') selected) (\<lambda>ms.
               Inr \<lparr> matches = ms, matches_count = length ms \<rparr>))
             else Inr \<lparr> matches = [], matches_count = 0 \<rparr>)),
           a', q))"

subsection \<open>fetchAnalyticsData\<close>

text \<open>
  The average is computed in doubles. A finite double is a rational number, and
  \<open>toDouble q\<close> is the double nearest to \<open>q\<close>: 53 significant bits, a tie going to the even
  significand (no overflow or underflow arises from the integers of the model). The
  division of two doubles is \<open>toDouble\<close> of the exact quotient, and \<^verbatim>\<open>parseFloat\<close> of a
  decimal string is \<open>toDouble\<close> of the number it denotes.
\<close>

definition roundHalfEven :: "rat \<Rightarrow> int" where
  "roundHalfEven y =
     (let f = \<lfloor>y\<rfloor>; r = y - of_int f
      in if r < 1 / 2 then f else if 1 / 2 < r then f + 1 else if even f then f else f + 1)"

text \<open>The exponent \<open>e\<close> with \<open>2^e \<le> |q| < 2^(e+1)\<close>, for \<open>q\<close> other than 0.\<close>

definition binade :: "rat \<Rightarrow> int" where
  "binade q =
     (case quotient_of \<bar>q\<bar> of
        (a, b) \<Rightarrow>
          (let d = int (floorlog 2 (nat a)) - int (floorlog 2 (nat b))
           in if 2 powi d \<le> \<bar>q\<bar> then d else d - 1))"

definition toDouble :: "rat \<Rightarrow> rat" where
  "toDouble q =
     (if q = 0 then 0
      else (let quantum = 2 powi (binade q - 52)
            in of_int (roundHalfEven (q / quantum)) * quantum))"

text \<open>
  \<open>toFixed1 x\<close> is the number that the string \<^verbatim>\<open>x.toFixed(1)\<close> denotes: \<open>n / 10\<close> for the
  integer \<open>n\<close> that brings it nearest to the double \<open>x\<close>, the larger \<open>n\<close> at a tie, the sign
  set aside.
\<close>

definition toFixed1 :: "rat \<Rightarrow> rat" where
  "toFixed1 x =
     (if x < 0 then - (of_int \<lfloor>10 * (- x) + 1 / 2\<rfloor> / 10) else of_int \<lfloor>10 * x + 1 / 2\<rfloor> / 10)"

record summary =
  totalGoals :: int
  avgGoalsPerMatch :: rat
  topScorerGoals :: int
  topScoringTeam :: jsval
  topTeams :: "standings_row list"
  recentMatches :: "match list"
  leagueStats :: "(string \<times> int) list"

text \<open>The callback of the \<^verbatim>\<open>reduce\<close> that looks for the top scoring team; \<open>None\<close> is \<^verbatim>\<open>null\<close>.\<close>

definition higherScoring :: "standings_row option \<Rightarrow> standings_row \<Rightarrow> standings_row option" where
  "higherScoring best t =
     (if goalsFor t > (case best of Some b \<Rightarrow> goalsFor b | None \<Rightarrow> 0) then Some t else best)"

text \<open>
  The \<^verbatim>\<open>try\<close> block once both feeds have returned. A table that is not an array (a
  built-in value reached through a prototype) has no \<^verbatim>\<open>reduce\<close> method.
\<close>

definition summarise :: "standings_result \<Rightarrow> matches_result \<Rightarrow> exn + summary" where
  "summarise st ms =
     (case (case standings st of [] \<Rightarrow> Own [] | g # gs \<Rightarrow> table g) of
        Inherited p \<Rightarrow> Inl TypeError
      | Own standingsTable \<Rightarrow>
          (let recent = take 100 (filter (\<lambda>m. status m = ''FINISHED'') (matches ms));
               total = foldl (\<lambda>sum t. sum + goalsFor t) 0 standingsTable;
               played = foldl (\<lambda>sum t. sum + playedGames t) 0 standingsTable;
               totalMatchesPlayed = (of_int played :: rat) / 2;
               average = (if totalMatchesPlayed > 0
                          then toDouble (toFixed1 (toDouble (of_int total / totalMatchesPlayed)))
                          else 0);
               topScoringTeamData = foldl higherScoring None standingsTable;
               totalWins = foldl (\<lambda>sum t. sum + won t) 0 standingsTable;
               totalDraws = foldl (\<lambda>sum t. sum + draw t) 0 standingsTable
           in Inr \<lparr> totalGoals = total,
                    avgGoalsPerMatch = average,
                    topScorerGoals = (case topScoringTeamData of Some b \<Rightarrow> goalsFor b | None \<Rightarrow> 0),
                    topScoringTeam =
                      (case topScoringTeamData of
                         Some b \<Rightarrow> orElse (team_name (team b)) (JStr ''Unknown'')
                       | None \<Rightarrow> JStr ''Unknown''),
                    topTeams = standingsTable,
                    recentMatches = recent,
                    leagueStats =
                      [(''Goals'', total), (''Matches'', (played + 1) div 2),
                       (''Wins'', totalWins), (''Draws'', totalDraws)] \<rparr>))"

definition emptySummary :: summary where
  "emptySummary =
     \<lparr> totalGoals = 0, avgGoalsPerMatch = 0, topScorerGoals = 0, topScoringTeam = JStr ''Unknown'',
       topTeams = [], recentMatches = [], leagueStats = [] \<rparr>"

text \<open>
  The two feeds are started together and joined. They read and write different cache
  keys, so the model runs one after the other. Any exception, of a feed or of the
  derivation, ends in the \<^verbatim>\<open>catch\<close> block.
\<close>

definition fetchAnalyticsData ::
  "runtime \<Rightarrow> api \<Rightarrow> tick \<Rightarrow> tick \<Rightarrow> string \<Rightarrow> string option \<Rightarrow> (exn + summary) \<times> api \<times> string list" where
  "fetchAnalyticsData rt a t1 t2 competition' season' =
     (case fetchStandings rt a t1 competition' season' of
        (r1, a1, q1) \<Rightarrow>
          (case fetchCompetitionMatches rt a1 t2 competition' season' of
             (r2, a2, q2) \<Rightarrow>
               ((case bindE r1 (\<lambda>st. bindE r2 (\<lambda>ms. summarise st ms)) of
                   Inr s \<Rightarrow> Inr s
                 | Inl error \<Rightarrow> Inr emptySummary),
                a2, q1 @ q2)))"

section \<open>TabManager\<close>

text \<open>
  What \<^verbatim>\<open>setTabData\<close> receives: the result of one of the four loaders, the object for an
  unknown tab, or the error payload of \<^verbatim>\<open>handleTabError\<close>.
\<close>

record error_payload =
  error_flag :: bool
  errorMessage :: string
  userFriendlyMessage :: string
  payload_matches :: "match list"
  payload_teams :: "team list"
  payload_standings :: "standings_group list"

datatype tab_data =
    MatchesWithMessage "match list" string
  | MatchesData matches_result
  | StandingsData standings_result
  | TeamsData teams_result
  | UnknownTab bool string
  | ErrorPayload error_payload

record toast =
  title :: string
  description :: string
  variant :: "string option"

text \<open>
  What a call of \<^verbatim>\<open>switchTab\<close> does to the outside, in order: calls of the three injected
  state setters, toasts, and the HTTP requests of the API object. The setters and
  \<^verbatim>\<open>toast\<close> belong to the UI layer and return normally.
\<close>

datatype ui_event =
    SetActiveTab string
  | SetLoading bool
  | SetTabData tab_data
  | Toast toast
  | HttpGet string

record tab_manager =
  activeTab :: string
  api_object :: api

text \<open>\<^verbatim>\<open>new TabManager(activeTab, setActiveTab, setTabData, setLoading)\<close>.\<close>

definition TabManager :: "string \<Rightarrow> tab_manager" where
  "TabManager initialTab = \<lparr> activeTab = initialTab, api_object = constructor \<rparr>"

text \<open>
  The loaders. The normaliser always returns an array for \<^verbatim>\<open>matches\<close>, so the test
  \<^verbatim>\<open>if (data.matches)\<close> succeeds.
\<close>

definition loadLiveMatches ::
  "runtime \<Rightarrow> api \<Rightarrow> tick \<Rightarrow> string option \<Rightarrow> (exn + tab_data) \<times> api \<times> string list" where
  "loadLiveMatches rt a t season' =
     (case fetchMatches rt a t season' of
        (r, a', q) \<Rightarrow>
          (bindE r (\<lambda>d.
             let liveMatches = filter (\<lambda>m. status m = ''IN_PLAY'' \<or> status m = ''LIVE'') (matches d)
             in if length liveMatches = 0
                then Inr (MatchesWithMessage (matches d)
                       ''No live matches at the moment - showing recent matches'')
                else Inr (MatchesData (d\<lparr>matches := liveMatches\<rparr>))),
           a', q))"

definition loadLeagueStandings ::
  "runtime \<Rightarrow> api \<Rightarrow> tick \<Rightarrow> string \<Rightarrow> string option \<Rightarrow> (exn + tab_data) \<times> api \<times> string list" where
  "loadLeagueStandings rt a t competition' season' =
     (case fetchStandings rt a t competition' season' of
        (r, a', q) \<Rightarrow> (bindE r (\<lambda>d. Inr (StandingsData d)), a', q))"

definition loadTeamStatistics ::
  "runtime \<Rightarrow> api \<Rightarrow> tick \<Rightarrow> tick \<Rightarrow> tick \<Rightarrow> string \<Rightarrow> string option
     \<Rightarrow> (exn + tab_data) \<times> api \<times> string list" where
  "loadTeamStatistics rt a t1 t2 t3 competition' season' =
     (case fetchTeams rt a t1 t2 t3 competition' season' of
        (r, a', q) \<Rightarrow> (bindE r (\<lambda>d. Inr (TeamsData d)), a', q))"

definition loadRecentResults ::
  "runtime \<Rightarrow> api \<Rightarrow> tick \<Rightarrow> string \<Rightarrow> string option \<Rightarrow> (exn + tab_data) \<times> api \<times> string list" where
  "loadRecentResults rt a t competition' season' =
     (case fetchCompetitionMatches rt a t competition' season' of
        (r, a', q) \<Rightarrow>
          (bindE r (\<lambda>d.
             Inr (MatchesData (d\<lparr>matches := filter (\<lambda>m. status m = ''FINISHED'') (matches d)\<rparr>))),
           a', q))"

definition tabNames :: "(string \<times> string) list" where
  "tabNames =
     [(''live-matches'', ''Live matches''), (''league-tables'', ''League standings''),
      (''team-stats'', ''Teams information''), (''recent-results'', ''Recent results'')]"

definition getTabDisplayName :: "string \<Rightarrow> string member" where
  "getTabDisplayName tabId = lookupOr tabNames tabId ''Data''"

definition successToast :: "runtime \<Rightarrow> string \<Rightarrow> toast" where
  "successToast rt tabId =
     \<lparr> title = ''Data Loaded Successfully'',
       description = memberString rt (getTabDisplayName tabId) @ '' loaded from TheSportsDB API.'',
       variant = None \<rparr>"

definition failureToast :: toast where
  "failureToast =
     \<lparr> title = ''Unable to load sports data'',
       description = ''There was an issue loading data from the sports API. Please try again.'',
       variant = Some ''destructive'' \<rparr>"

definition errorData :: error_payload where
  "errorData =
     \<lparr> error_flag = True,
       errorMessage = ''Failed to load data from TheSportsDB API'',
       userFriendlyMessage = ''Unable to connect to sports data service. This may be due to API access restrictions or network issues.'',
       payload_matches = [],
       payload_teams = [],
       payload_standings = [] \<rparr>"

text \<open>\<^verbatim>\<open>handleTabError\<close>: the toast, then the error payload.\<close>

definition handleTabError :: "ui_event list" where
  "handleTabError = [Toast failureToast, SetTabData (ErrorPayload errorData)]"

text \<open>The \<^verbatim>\<open>switch\<close> statement of \<^verbatim>\<open>switchTab\<close>.\<close>

definition dispatch ::
  "runtime \<Rightarrow> api \<Rightarrow> tick \<Rightarrow> tick \<Rightarrow> tick \<Rightarrow> string \<Rightarrow> string \<Rightarrow> string option
     \<Rightarrow> (exn + tab_data) \<times> api \<times> string list" where
  "dispatch rt a t1 t2 t3 tabId competition' season' =
     (if tabId = ''live-matches'' then loadLiveMatches rt a t1 season'
      else if tabId = ''league-tables'' then loadLeagueStandings rt a t1 competition' season'
      else if tabId = ''team-stats'' then loadTeamStatistics rt a t1 t2 t3 competition' season'
      else if tabId = ''recent-results'' then loadRecentResults rt a t1 competition' season'
      else (Inr (UnknownTab True ''Unknown tab selected''), a, []))"

text \<open>
  \<^verbatim>\<open>switchTab\<close> returns the events in the order they happen and the manager afterwards.
  It uses up to three clock-and-network ticks, one for each call of \<^verbatim>\<open>fetchData\<close>.
\<close>

definition switchTab ::
  "runtime \<Rightarrow> tab_manager \<Rightarrow> tick \<Rightarrow> tick \<Rightarrow> tick \<Rightarrow> string \<Rightarrow> string \<Rightarrow> string option
     \<Rightarrow> ui_event list \<times> tab_manager" where
  "switchTab rt m t1 t2 t3 tabId competition' season' =
     (case dispatch rt (api_object m) t1 t2 t3 tabId competition' season' of
        (r, a', q) \<Rightarrow>
          ([SetActiveTab tabId, SetLoading True] @
           map HttpGet q @
           (case r of
              Inr d \<Rightarrow> [SetTabData d, Toast (successToast rt tabId)]
            | Inl error' \<Rightarrow> handleTabError) @
           [SetLoading False],
           m\<lparr>api_object := a'\<rparr>))"

definition getCurrentTab :: "tab_manager \<Rightarrow> string" where
  "getCurrentTab m = activeTab m"

definition isTabActive :: "tab_manager \<Rightarrow> string \<Rightarrow> bool" where
  "isTabActive m tabId = (activeTab m = tabId)"

section \<open>Sample inputs\<close>

text \<open>A runtime and clock readings at which the theorems below are instantiated.\<close>

definition sampleRuntime :: runtime where
  "sampleRuntime =
     \<lparr> toUpperCase = map (\<lambda>c. if 97 \<le> (of_char c :: nat) \<and> (of_char c :: nat) \<le> 122
                                then char_of ((of_char c :: nat) - 32) else c),
       isoDate = (\<lambda>ms. ''2025-01-15''),
       memberText = (\<lambda>p. ''function () { [native code] }''),
       memberProperty = (\<lambda>p. Inr False) \<rparr>"

definition sampleTick :: "int \<Rightarrow> response \<Rightarrow> tick" where
  "sampleTick now r = \<lparr> now_check = now, live = r, now_store = now, now_mock = (\<lambda>k. now) \<rparr>"

text \<open>
  A standings row without a rank, whose explicit goal difference does not parse, and the
  first row of the provider's table format with every property present.
\<close>

definition sampleRow :: jsval where
  "sampleRow =
     JObj [(''idTeam'', JStr ''133604''), (''strTeam'', JStr ''Arsenal''),
           (''intGoalsFor'', JStr ''5''), (''intGoalsAgainst'', JStr ''3''),
           (''intGoalDifference'', JStr ''n/a'')]"

definition liverpoolRow :: jsval where
  "liverpoolRow =
     JObj [(''intRank'', JStr ''1''), (''idTeam'', JStr ''133602''), (''strTeam'', JStr ''Liverpool''),
           (''intPlayed'', JStr ''15''), (''intWin'', JStr ''11''), (''intDraw'', JStr ''3''),
           (''intLoss'', JStr ''1''), (''intGoalsFor'', JStr ''29''), (''intGoalsAgainst'', JStr ''8''),
           (''intGoalDifference'', JStr ''21''), (''intPoints'', JStr ''36''),
           (''strForm'', JStr ''WWWDW'')]"

definition liverpoolStanding :: standings_row where
  "liverpoolStanding =
     \<lparr> position = 1,
       team = \<lparr> team_id = JStr ''133602'', team_name = JStr ''Liverpool'',
                shortName = JStr ''Liverpool'', tla = JStr ''LIV'', crest = JStr defaultBadge \<rparr>,
       playedGames = 15, won = 11, draw = 3, lost = 1, points = 36,
       goalsFor = 29, goalsAgainst = 8, goalDifference = 21, form = JStr ''WWWDW'' \<rparr>"

text \<open>A row whose explicit goal difference is 0 and disagrees with its goals.\<close>

definition zeroDifferenceRow :: jsval where
  "zeroDifferenceRow =
     JObj [(''intRank'', JStr ''7''), (''idTeam'', JStr ''133604''), (''strTeam'', JStr ''Arsenal''),
           (''intGoalsFor'', JStr ''5''), (''intGoalsAgainst'', JStr ''3''),
           (''intGoalDifference'', JStr ''0'')]"

section \<open>The fetch cache layer\<close>

lemma mock_marker: "field (getMockData rt now endpoint) ''_isMockData'' = JBool True"
  by (simp add: getMockData_def field_def mockTeamsPayload_def mockTablePayload_def mockEventsPayload_def)

lemma liveFetch_fails: "liveFails (live t) \<Longrightarrow> \<exists>e. liveFetch a t endpoint = (Inl e, a)"
  by (auto simp: liveFails_def liveFetch_def split: response.splits option.splits)

lemma liveFetch_succeeds:
  "live t = HttpResponse True code statusText (Some d) \<Longrightarrow>
   liveFetch a t endpoint =
     (Inr d, a\<lparr>cache := (cache a)(endpoint \<mapsto> \<lparr>data = d, timestamp = now_store t\<rparr>)\<rparr>)"
  by (simp add: liveFetch_def)

lemma fetchData_hit:
  "cacheHit a (now_check t) endpoint = Some d \<Longrightarrow> fetchData rt a t endpoint = (Inr d, a, [])"
  by (simp add: fetchData_def)

lemma fetchData_miss_fail:
  assumes "cacheHit a (now_check t) endpoint = None" and "liveFails (live t)"
  shows "fetchData rt a t endpoint =
           (Inr (getMockData rt (now_mock t) endpoint), a, [fullUrl a endpoint])"
proof -
  obtain e where "liveFetch a t endpoint = (Inl e, a)"
    using liveFetch_fails [OF assms(2)] by blast
  with assms(1) show ?thesis by (simp add: fetchData_def)
qed

lemma fetchData_miss_success:
  assumes "cacheHit a (now_check t) endpoint = None"
    and "live t = HttpResponse True code statusText (Some d)"
  shows "fetchData rt a t endpoint =
           (Inr d, a\<lparr>cache := (cache a)(endpoint \<mapsto> \<lparr>data = d, timestamp = now_store t\<rparr>)\<rparr>,
            [fullUrl a endpoint])"
  using assms by (simp add: fetchData_def liveFetch_succeeds)

lemma fetchData_miss_requests:
  "cacheHit a (now_check t) endpoint = None \<Longrightarrow> requested (fetchData rt a t endpoint) = [fullUrl a endpoint]"
  by (simp add: fetchData_def requested_def split: prod.splits sum.splits)

lemma fetchData_total: "\<exists>v. returned (fetchData rt a t endpoint) = Inr v"
  by (simp add: fetchData_def returned_def split: option.splits prod.splits sum.splits)

text \<open>
  Claim C1. For every endpoint key, \<open>fetchData\<close> returns a value and never an exception.
  Whenever it goes to the network (no fresh cache entry) and the live request fails, by a
  rejected promise, a status that is not ok or a body that does not parse, the value is
  what \<open>getMockData\<close> gives for the endpoint, and that value carries
  \<^verbatim>\<open>_isMockData: true\<close>.
\<close>

theorem fetchData_never_raises:
  "(\<exists>v. returned (fetchData rt a t endpoint) = Inr v) \<and>
   (cacheHit a (now_check t) endpoint = None \<and> liveFails (live t) \<longrightarrow>
      returned (fetchData rt a t endpoint) = Inr (getMockData rt (now_mock t) endpoint) \<and>
      field (getMockData rt (now_mock t) endpoint) ''_isMockData'' = JBool True)"
  using fetchData_total [of rt a t endpoint] mock_marker [of rt "now_mock t" endpoint]
  by (auto simp: fetchData_miss_fail returned_def)

theorem fetchData_never_raises_witness:
  "cacheHit constructor (now_check (sampleTick 0 NetworkError)) ''/lookuptable.php?l=4328'' = None \<and>
   liveFails (live (sampleTick 0 NetworkError)) \<and>
   returned (fetchData sampleRuntime constructor (sampleTick 0 NetworkError) ''/lookuptable.php?l=4328'')
     = Inr mockTablePayload \<and>
   field mockTablePayload ''_isMockData'' = JBool True"
proof -
  have h: "cacheHit constructor (now_check (sampleTick 0 NetworkError)) ''/lookuptable.php?l=4328'' = None \<and>
      liveFails (live (sampleTick 0 NetworkError))"
    by (simp add: cacheHit_def constructor_def sampleTick_def liveFails_def)
  have m: "getMockData sampleRuntime (now_mock (sampleTick 0 NetworkError)) ''/lookuptable.php?l=4328''
      = mockTablePayload"
    by (simp add: getMockData_def)
  show ?thesis
    using h m fetchData_never_raises [of sampleRuntime constructor "sampleTick 0 NetworkError"
        "''/lookuptable.php?l=4328''"]
    by simp
qed

text \<open>
  Claim C2, as stated, fails. On a new API object a first call whose live request fails
  (status 503) stores nothing, so a second call one second later, well inside the
  10-minute window, goes to the network too: two calls, two requests.
\<close>

theorem fetchData_twice_two_requests_counterexample:
  "cacheExpiry constructor = 600000 \<and>
   now_check (sampleTick 2000 NetworkError) -
     now_check (sampleTick 1000 (HttpResponse False 503 ''Service Unavailable'' None))
     < cacheExpiry constructor \<and>
   requested (fetchData sampleRuntime constructor
       (sampleTick 1000 (HttpResponse False 503 ''Service Unavailable'' None))
       ''/lookuptable.php?l=4328'') @
   requested (fetchData sampleRuntime
       (apiAfter (fetchData sampleRuntime constructor
          (sampleTick 1000 (HttpResponse False 503 ''Service Unavailable'' None))
          ''/lookuptable.php?l=4328''))
       (sampleTick 2000 NetworkError) ''/lookuptable.php?l=4328'')
     = [''https://www.thesportsdb.com/api/v1/json/3/lookuptable.php?l=4328'',
        ''https://www.thesportsdb.com/api/v1/json/3/lookuptable.php?l=4328'']"
proof -
  define t1 where "t1 = sampleTick 1000 (HttpResponse False 503 ''Service Unavailable'' None)"
  define t2 where "t2 = sampleTick 2000 NetworkError"
  define key where "key = ''/lookuptable.php?l=4328''"
  have bad: "liveFails (live t1)" "liveFails (live t2)"
    by (simp_all add: t1_def t2_def sampleTick_def liveFails_def)
  have miss: "cacheHit constructor (now_check t1) key = None"
    "cacheHit constructor (now_check t2) key = None"
    by (simp_all add: cacheHit_def constructor_def)
  have c1: "fetchData sampleRuntime constructor t1 key =
      (Inr (getMockData sampleRuntime (now_mock t1) key), constructor, [fullUrl constructor key])"
    using miss(1) bad(1) by (rule fetchData_miss_fail)
  have c2: "fetchData sampleRuntime constructor t2 key =
      (Inr (getMockData sampleRuntime (now_mock t2) key), constructor, [fullUrl constructor key])"
    using miss(2) bad(2) by (rule fetchData_miss_fail)
  have url: "fullUrl constructor key = ''https://www.thesportsdb.com/api/v1/json/3/lookuptable.php?l=4328''"
    by (simp add: fullUrl_def constructor_def key_def)
  have both: "requested (fetchData sampleRuntime constructor t1 key) @
      requested (fetchData sampleRuntime (apiAfter (fetchData sampleRuntime constructor t1 key)) t2 key)
      = [''https://www.thesportsdb.com/api/v1/json/3/lookuptable.php?l=4328'',
         ''https://www.thesportsdb.com/api/v1/json/3/lookuptable.php?l=4328'']"
    by (simp add: c1 c2 apiAfter_def requested_def url)
  have window: "now_check t2 - now_check t1 < cacheExpiry constructor"
    by (simp add: t1_def t2_def sampleTick_def constructor_def)
  have ttl: "cacheExpiry constructor = 600000"
    by (simp add: constructor_def)
  show ?thesis
    using ttl window both unfolding t1_def t2_def key_def by (intro conjI)
qed

text \<open>
  The same happens when the second call begins while the first is suspended at its
  request: neither cache test finds an entry, whatever the requests return.
\<close>

lemma fetchData_resume:
  "fetchData rt a t endpoint =
     (case cacheHit a (now_check t) endpoint of
        Some d \<Rightarrow> (Inr d, a, [])
      | None \<Rightarrow> resume rt a t endpoint)"
  by (simp add: fetchData_def resume_def split: option.splits)

lemma liveFetch_keeps_url: "fullUrl (snd (liveFetch a t endpoint)) e = fullUrl a e"
  by (simp add: liveFetch_def fullUrl_def split: response.splits option.splits)

lemma fetchData_overlapping_requests:
  assumes "cacheHit a (now_check t1) endpoint = None" and "cacheHit a (now_check t2) endpoint = None"
  shows "requested (fetchDataOverlapping rt a t1 t2 endpoint) = [fullUrl a endpoint, fullUrl a endpoint]"
proof -
  obtain r1 a1 where l1: "liveFetch a t1 endpoint = (r1, a1)"
    by (cases "liveFetch a t1 endpoint")
  obtain r2 a2 where l2: "liveFetch a1 t2 endpoint = (r2, a2)"
    by (cases "liveFetch a1 t2 endpoint")
  have "fullUrl a1 endpoint = fullUrl a endpoint"
    using liveFetch_keeps_url [of a t1 endpoint endpoint] by (simp add: l1)
  then show ?thesis
    using assms
    by (simp add: fetchDataOverlapping_def resume_def requested_def l1 l2 split: sum.splits)
qed

text \<open>
  Claim C2, amended. If the cache holds an entry for the key and the current time minus
  its stored timestamp is strictly below \<open>cacheExpiry\<close>, \<open>fetchData\<close> returns the cached
  payload, leaves the API object as it was and requests nothing from the network. Hence,
  for calls made one after another, when a first call finds no fresh entry and its live
  request succeeds with payload \<open>d\<close>, a second call within the window returns \<open>d\<close> and the
  two calls together make exactly one request; a third call once the window has elapsed
  makes a request again. The constructor sets the window to 10 minutes.
\<close>

theorem fetchData_cached_within_ttl:
  "(\<forall>cached. cache a key = Some cached \<and> now_check t - timestamp cached < cacheExpiry a \<longrightarrow>
      fetchData rt a t key = (Inr (data cached), a, [])) \<and>
   (cacheHit a (now_check t1) key = None \<and>
    live t1 = HttpResponse True code statusText (Some d) \<and>
    now_check t2 - now_store t1 < cacheExpiry a \<and>
    \<not> now_check t3 - now_store t1 < cacheExpiry a \<longrightarrow>
      (let c1 = fetchData rt a t1 key;
           c2 = fetchData rt (apiAfter c1) t2 key;
           c3 = fetchData rt (apiAfter c2) t3 key
       in returned c1 = Inr d \<and> returned c2 = Inr d \<and>
          requested c1 @ requested c2 = [fullUrl a key] \<and>
          requested c3 = [fullUrl a key])) \<and>
   cacheExpiry constructor = 10 * 60 * 1000"
proof -
  have hit: "fetchData rt a t key = (Inr (data cached), a, [])"
    if "cache a key = Some cached" and "now_check t - timestamp cached < cacheExpiry a" for cached
    using that by (simp add: fetchData_hit cacheHit_def)
  have seq: "let c1 = fetchData rt a t1 key;
           c2 = fetchData rt (apiAfter c1) t2 key;
           c3 = fetchData rt (apiAfter c2) t3 key
       in returned c1 = Inr d \<and> returned c2 = Inr d \<and>
          requested c1 @ requested c2 = [fullUrl a key] \<and>
          requested c3 = [fullUrl a key]"
    if miss: "cacheHit a (now_check t1) key = None"
      and ok: "live t1 = HttpResponse True code statusText (Some d)"
      and within: "now_check t2 - now_store t1 < cacheExpiry a"
      and elapsed: "\<not> now_check t3 - now_store t1 < cacheExpiry a"
  proof -
    define a1 where "a1 = a\<lparr>cache := (cache a)(key \<mapsto> \<lparr>data = d, timestamp = now_store t1\<rparr>)\<rparr>"
    have c1: "fetchData rt a t1 key = (Inr d, a1, [fullUrl a key])"
      using fetchData_miss_success [OF miss ok] by (simp add: a1_def)
    have "cacheHit a1 (now_check t2) key = Some d"
      using within by (simp add: cacheHit_def a1_def)
    then have c2: "fetchData rt a1 t2 key = (Inr d, a1, [])"
      by (rule fetchData_hit)
    have "cacheHit a1 (now_check t3) key = None"
      using elapsed by (simp add: cacheHit_def a1_def)
    then have c3: "requested (fetchData rt a1 t3 key) = [fullUrl a1 key]"
      by (rule fetchData_miss_requests)
    have url: "fullUrl a1 key = fullUrl a key"
      by (simp add: fullUrl_def a1_def)
    show ?thesis
      using c1 c2 c3 url by (simp add: Let_def apiAfter_def returned_def requested_def)
  qed
  have ttl: "cacheExpiry constructor = 10 * 60 * 1000"
    by (simp add: constructor_def)
  show ?thesis using hit seq ttl by blast
qed

theorem fetchData_cached_within_ttl_witness:
  "(let a = constructor;
        t1 = sampleTick 1000 (HttpResponse True 200 ''OK'' (Some (JObj [(''table'', JNull)])));
        t2 = sampleTick 600999 NetworkError;
        t3 = sampleTick 601000 NetworkError;
        key = ''/lookuptable.php?l=4328'';
        c1 = fetchData sampleRuntime a t1 key;
        c2 = fetchData sampleRuntime (apiAfter c1) t2 key;
        c3 = fetchData sampleRuntime (apiAfter c2) t3 key
    in cacheHit a (now_check t1) key = None \<and>
       now_check t2 - now_store t1 < cacheExpiry a \<and>
       \<not> now_check t3 - now_store t1 < cacheExpiry a \<and>
       cache (apiAfter c1) key = Some \<lparr>data = JObj [(''table'', JNull)], timestamp = 1000\<rparr> \<and>
       now_check t2 - 1000 < cacheExpiry (apiAfter c1) \<and>
       c2 = (Inr (JObj [(''table'', JNull)]), apiAfter c1, []) \<and>
       returned c1 = Inr (JObj [(''table'', JNull)]) \<and>
       requested c1 @ requested c2 = [''https://www.thesportsdb.com/api/v1/json/3/lookuptable.php?l=4328''] \<and>
       requested c3 = [''https://www.thesportsdb.com/api/v1/json/3/lookuptable.php?l=4328''])"
proof -
  define d where "d = JObj [(''table'', JNull)]"
  define t1 where "t1 = sampleTick 1000 (HttpResponse True 200 ''OK'' (Some d))"
  define t2 where "t2 = sampleTick 600999 NetworkError"
  define t3 where "t3 = sampleTick 601000 NetworkError"
  define key where "key = ''/lookuptable.php?l=4328''"
  define a1 where "a1 = apiAfter (fetchData sampleRuntime constructor t1 key)"
  have miss: "cacheHit constructor (now_check t1) key = None"
    by (simp add: cacheHit_def constructor_def)
  have ok: "live t1 = HttpResponse True 200 ''OK'' (Some d)"
    by (simp add: t1_def sampleTick_def)
  have within: "now_check t2 - now_store t1 < cacheExpiry constructor"
    by (simp add: t1_def t2_def sampleTick_def constructor_def)
  have elapsed: "\<not> now_check t3 - now_store t1 < cacheExpiry constructor"
    by (simp add: t1_def t3_def sampleTick_def constructor_def)
  have a1: "a1 = constructor\<lparr>cache := (cache constructor)(key \<mapsto> \<lparr>data = d, timestamp = 1000\<rparr>)\<rparr>"
    using fetchData_miss_success [OF miss ok, of sampleRuntime]
    by (simp add: a1_def apiAfter_def t1_def sampleTick_def)
  have entry: "cache a1 key = Some \<lparr>data = d, timestamp = 1000\<rparr>"
    and fresh: "now_check t2 - timestamp \<lparr>data = d, timestamp = 1000\<rparr> < cacheExpiry a1"
    by (simp_all add: a1 t2_def sampleTick_def constructor_def)
  have url: "fullUrl constructor key = ''https://www.thesportsdb.com/api/v1/json/3/lookuptable.php?l=4328''"
    by (simp add: fullUrl_def constructor_def key_def)
  have first: "fetchData sampleRuntime a1 t2 key = (Inr d, a1, [])"
    using fetchData_cached_within_ttl [where a = a1 and key = key and t = t2 and rt = sampleRuntime]
      entry fresh by auto
  have second: "let c1 = fetchData sampleRuntime constructor t1 key;
           c2 = fetchData sampleRuntime (apiAfter c1) t2 key;
           c3 = fetchData sampleRuntime (apiAfter c2) t3 key
       in returned c1 = Inr d \<and> returned c2 = Inr d \<and>
          requested c1 @ requested c2 = [fullUrl constructor key] \<and>
          requested c3 = [fullUrl constructor key]"
    using fetchData_cached_within_ttl [where a = constructor and key = key and rt = sampleRuntime
        and ?t1.0 = t1 and ?t2.0 = t2 and ?t3.0 = t3 and d = d and code = 200 and statusText = "''OK''"]
      miss ok within elapsed by blast
  show ?thesis
    using miss within elapsed entry fresh first second url
    unfolding Let_def d_def [symmetric] t1_def [symmetric] t2_def [symmetric] t3_def [symmetric]
      key_def [symmetric] a1_def [symmetric]
    by (simp add: t2_def sampleTick_def)
qed

text \<open>
  Claim C3. The cache is written only on a successful live fetch: a call that changes the
  cache map found no fresh entry and its live request did not fail. When the live request
  fails and mock data is substituted, the API object, and with it the cache map, is left
  as it was, so the next call for the same key (the clock not running backwards) goes to
  the network again.
\<close>

theorem no_negative_caching:
  "(cache (apiAfter (fetchData rt a t key)) \<noteq> cache a \<longrightarrow>
      cacheHit a (now_check t) key = None \<and> \<not> liveFails (live t)) \<and>
   (cacheHit a (now_check t) key = None \<and> liveFails (live t) \<longrightarrow>
      returned (fetchData rt a t key) = Inr (getMockData rt (now_mock t) key) \<and>
      apiAfter (fetchData rt a t key) = a \<and>
      (now_check t \<le> now_check t' \<longrightarrow>
         requested (fetchData rt (apiAfter (fetchData rt a t key)) t' key) = [fullUrl a key]))"
proof -
  have written: "cacheHit a (now_check t) key = None \<and> \<not> liveFails (live t)"
    if changed: "cache (apiAfter (fetchData rt a t key)) \<noteq> cache a"
  proof (cases "cacheHit a (now_check t) key")
    case (Some d)
    then show ?thesis using changed by (simp add: fetchData_hit apiAfter_def)
  next
    case None
    then show ?thesis
      using changed fetchData_miss_fail [of a t key rt] by (auto simp: apiAfter_def)
  qed
  have kept: "returned (fetchData rt a t key) = Inr (getMockData rt (now_mock t) key) \<and>
      apiAfter (fetchData rt a t key) = a \<and>
      (now_check t \<le> now_check t' \<longrightarrow>
         requested (fetchData rt (apiAfter (fetchData rt a t key)) t' key) = [fullUrl a key])"
    if miss: "cacheHit a (now_check t) key = None" and bad: "liveFails (live t)"
  proof -
    have same: "apiAfter (fetchData rt a t key) = a"
      and mock: "returned (fetchData rt a t key) = Inr (getMockData rt (now_mock t) key)"
      using fetchData_miss_fail [OF miss bad] by (simp_all add: apiAfter_def returned_def)
    have "cacheHit a (now_check t') key = None" if "now_check t \<le> now_check t'"
      using miss that by (auto simp: cacheHit_def split: option.splits if_splits)
    then show ?thesis
      using same mock by (simp add: fetchData_miss_requests)
  qed
  show ?thesis using written kept by blast
qed

theorem no_negative_caching_witness:
  "(let a = constructor;
        t = sampleTick 1000 (HttpResponse False 503 ''Service Unavailable'' None);
        t' = sampleTick 2000 NetworkError;
        key = ''/eventspastleague.php?id=4328''
    in cacheHit a (now_check t) key = None \<and> liveFails (live t) \<and> now_check t \<le> now_check t' \<and>
       returned (fetchData sampleRuntime a t key) = Inr (getMockData sampleRuntime (now_mock t) key) \<and>
       apiAfter (fetchData sampleRuntime a t key) = a \<and>
       requested (fetchData sampleRuntime (apiAfter (fetchData sampleRuntime a t key)) t' key)
         = [fullUrl a key]) \<and>
   (let a = constructor;
        t = sampleTick 1000 (HttpResponse True 200 ''OK'' (Some JNull));
        key = ''/eventspastleague.php?id=4328''
    in cache (apiAfter (fetchData sampleRuntime a t key)) \<noteq> cache a \<and>
       cacheHit a (now_check t) key = None \<and> \<not> liveFails (live t))"
proof -
  define t where "t = sampleTick 1000 (HttpResponse False 503 ''Service Unavailable'' None)"
  define t' where "t' = sampleTick 2000 NetworkError"
  define u where "u = sampleTick 1000 (HttpResponse True 200 ''OK'' (Some JNull))"
  define key where "key = ''/eventspastleague.php?id=4328''"
  have miss: "cacheHit constructor (now_check t) key = None"
    by (simp add: cacheHit_def constructor_def)
  have bad: "liveFails (live t)"
    by (simp add: t_def sampleTick_def liveFails_def)
  have later: "now_check t \<le> now_check t'"
    by (simp add: t_def t'_def sampleTick_def)
  have failing: "returned (fetchData sampleRuntime constructor t key) = Inr (getMockData sampleRuntime (now_mock t) key) \<and>
       apiAfter (fetchData sampleRuntime constructor t key) = constructor \<and>
       requested (fetchData sampleRuntime (apiAfter (fetchData sampleRuntime constructor t key)) t' key)
         = [fullUrl constructor key]"
    using no_negative_caching [of sampleRuntime constructor t key t'] miss bad later by blast
  have "cacheHit constructor (now_check u) key = None"
    by (simp add: cacheHit_def constructor_def)
  moreover have "live u = HttpResponse True 200 ''OK'' (Some JNull)"
    by (simp add: u_def sampleTick_def)
  ultimately have "fetchData sampleRuntime constructor u key =
      (Inr JNull, constructor\<lparr>cache := (cache constructor)(key \<mapsto> \<lparr>data = JNull, timestamp = now_store u\<rparr>)\<rparr>,
       [fullUrl constructor key])"
    by (rule fetchData_miss_success)
  then have "cache (apiAfter (fetchData sampleRuntime constructor u key)) key \<noteq> cache constructor key"
    by (simp add: apiAfter_def constructor_def)
  then have changed: "cache (apiAfter (fetchData sampleRuntime constructor u key)) \<noteq> cache constructor"
    by metis
  have written: "cacheHit constructor (now_check u) key = None \<and> \<not> liveFails (live u)"
    using no_negative_caching [of sampleRuntime constructor u key t'] changed by blast
  show ?thesis
    using miss bad later failing changed written
    unfolding Let_def t_def [symmetric] t'_def [symmetric] u_def [symmetric] key_def [symmetric]
    by blast
qed

section \<open>Static configuration lookups\<close>

lemma lookupOr_unknown:
  "k \<notin> set (map fst tbl) \<Longrightarrow> k \<notin> set objectPrototypeKeys \<Longrightarrow> lookupOr tbl k d = Own d"
proof -
  assume "k \<notin> set (map fst tbl)" and "k \<notin> set objectPrototypeKeys"
  moreover from this have "map_of tbl k = None"
    by (simp add: map_of_eq_None_iff)
  ultimately show ?thesis
    by (simp add: lookupOr_def lookup_def)
qed

text \<open>
  Claim C9, as stated, fails: for the code \<^verbatim>\<open>XX\<close>, outside the five competitions, the
  display name is \<^verbatim>\<open>Football League\<close>, not the Premier League's \<^verbatim>\<open>Premier League\<close>.
\<close>

theorem unknown_code_display_name_counterexample:
  "''XX'' \<notin> set [''PL'', ''PD'', ''SA'', ''BL1'', ''FL1''] \<and>
   getCompetitionName ''XX'' = Own ''Football League'' \<and>
   getCompetitionName ''PL'' = Own ''Premier League'' \<and>
   getCompetitionName ''XX'' \<noteq> getCompetitionName ''PL''"
  by (simp add: getCompetitionName_def lookupOr_def lookup_def competitionNames_def
      objectPrototypeKeys_def)

text \<open>
  Claim C9, amended. For every competition code outside \<open>{PL, PD, SA, BL1, FL1}\<close> that is
  not the name of a member inherited from \<^verbatim>\<open>Object.prototype\<close>, the league identifier is
  the Premier League's (\<^verbatim>\<open>4328\<close>), the country label is the Premier League's
  (\<^verbatim>\<open>England\<close>), and the display name is \<^verbatim>\<open>Football League\<close>.
\<close>

theorem unknown_code_defaults:
  assumes "competition' \<notin> set [''PL'', ''PD'', ''SA'', ''BL1'', ''FL1'']"
    and "competition' \<notin> set objectPrototypeKeys"
  shows "getLeagueId competition' = Own ''4328'' \<and>
         getLeagueId competition' = getLeagueId ''PL'' \<and>
         getCountryForCompetition competition' = Own ''England'' \<and>
         getCountryForCompetition competition' = getCountryForCompetition ''PL'' \<and>
         getCompetitionName competition' = Own ''Football League''"
proof -
  have pl: "getLeagueId ''PL'' = Own ''4328''" "getCountryForCompetition ''PL'' = Own ''England''"
    by (simp_all add: getLeagueId_def getCountryForCompetition_def lookupOr_def lookup_def
        leagueMap_def countryMap_def)
  have "getLeagueId competition' = Own ''4328''"
    unfolding getLeagueId_def using assms by (intro lookupOr_unknown) (simp_all add: leagueMap_def)
  moreover have "getCountryForCompetition competition' = Own ''England''"
    unfolding getCountryForCompetition_def using assms
    by (intro lookupOr_unknown) (simp_all add: countryMap_def)
  moreover have "getCompetitionName competition' = Own ''Football League''"
    unfolding getCompetitionName_def using assms
    by (intro lookupOr_unknown) (simp_all add: competitionNames_def)
  ultimately show ?thesis using pl by simp
qed

theorem unknown_code_defaults_witness:
  "''XX'' \<notin> set [''PL'', ''PD'', ''SA'', ''BL1'', ''FL1''] \<and>
   ''XX'' \<notin> set objectPrototypeKeys \<and>
   getLeagueId ''XX'' = Own ''4328'' \<and>
   getCountryForCompetition ''XX'' = Own ''England'' \<and>
   getCompetitionName ''XX'' = Own ''Football League''"
proof -
  have h1: "''XX'' \<notin> set [''PL'', ''PD'', ''SA'', ''BL1'', ''FL1'']" by simp
  have h2: "''XX'' \<notin> set objectPrototypeKeys" by (simp add: objectPrototypeKeys_def)
  show ?thesis using unknown_code_defaults [OF h1 h2] h1 h2 by blast
qed

section \<open>Standings rows\<close>

lemma standingsRow_Inr:
  assumes "standingsRow rt t index = Inr row"
  shows "\<exists>rank played wins draws losses pts gf ga explicit.
     parseInt (field t ''intRank'') = Inr rank \<and>
     parseInt (field t ''intPlayed'') = Inr played \<and>
     parseInt (field t ''intWin'') = Inr wins \<and>
     parseInt (field t ''intDraw'') = Inr draws \<and>
     parseInt (field t ''intLoss'') = Inr losses \<and>
     parseInt (field t ''intPoints'') = Inr pts \<and>
     parseInt (field t ''intGoalsFor'') = Inr gf \<and>
     parseInt (field t ''intGoalsAgainst'') = Inr ga \<and>
     parseInt (field t ''intGoalDifference'') = Inr explicit \<and>
     position row = orInt rank (int index + 1) \<and>
     playedGames row = orInt played 0 \<and>
     won row = orInt wins 0 \<and>
     draw row = orInt draws 0 \<and>
     lost row = orInt losses 0 \<and>
     points row = orInt pts 0 \<and>
     goalsFor row = orInt gf 0 \<and>
     goalsAgainst row = orInt ga 0 \<and>
     goalDifference row = orInt explicit (orInt gf 0 - orInt ga 0)"
  using assms unfolding standingsRow_def parseIntOr_def bindE_def
  by (auto split: if_splits sum.splits)

lemma orInt_zero: "orInt x 0 = (case x of Num n \<Rightarrow> n | NaN \<Rightarrow> 0)"
  by (simp add: orInt_def split: number.splits)

lemma parseInt_undefined: "parseInt JUndefined = Inr NaN"
  by (simp add: parseInt_def bindE_def parseIntString_def Let_def isWhiteSpace_def radixDigit_def
      digitValue_def)

text \<open>
  Claim C4, as stated, fails. The row \<open>sampleRow\<close> at index 2 has no rank, and its
  position becomes 3 (the index plus one), not 0; it supplies an explicit goal difference
  (\<^verbatim>\<open>n/a\<close>, which does not parse), and its goal difference is the computed \<open>5 - 3\<close>.
\<close>

theorem standingsRow_fallback_counterexample:
  "standingsRow sampleRuntime sampleRow 2 =
     Inr \<lparr> position = 3,
           team = \<lparr> team_id = JStr ''133604'', team_name = JStr ''Arsenal'',
                    shortName = JStr ''Arsenal'', tla = JStr ''ARS'', crest = JStr defaultBadge \<rparr>,
           playedGames = 0, won = 0, draw = 0, lost = 0, points = 0,
           goalsFor = 5, goalsAgainst = 3, goalDifference = 2, form = JStr ''N/A'' \<rparr> \<and>
   parseInt (field sampleRow ''intRank'') = Inr NaN \<and>
   field sampleRow ''intGoalDifference'' = JStr ''n/a'' \<and>
   parseInt (field sampleRow ''intGoalDifference'') = Inr NaN"
  by code_simp

text \<open>
  Claim C4, amended. For every row that \<open>fetchStandings\<close> maps at index \<open>index\<close>:
  \<open>playedGames\<close>, \<open>won\<close>, \<open>draw\<close>, \<open>lost\<close>, \<open>points\<close>, \<open>goalsFor\<close> and \<open>goalsAgainst\<close> are the
  parsed property, or 0 when it does not parse; \<open>position\<close> is the parsed rank, or
  \<open>index + 1\<close> when the rank does not parse or is 0; \<open>goalDifference\<close> is the parsed explicit
  property when that parses to a number other than 0, and is \<open>goalsFor - goalsAgainst\<close>
  when the explicit property does not parse, in particular when the row omits it.
\<close>

theorem standingsRow_numeric_fields:
  assumes "standingsRow rt t index = Inr row"
  shows "\<exists>rank played wins draws losses pts gf ga explicit.
     parseInt (field t ''intRank'') = Inr rank \<and>
     parseInt (field t ''intPlayed'') = Inr played \<and>
     parseInt (field t ''intWin'') = Inr wins \<and>
     parseInt (field t ''intDraw'') = Inr draws \<and>
     parseInt (field t ''intLoss'') = Inr losses \<and>
     parseInt (field t ''intPoints'') = Inr pts \<and>
     parseInt (field t ''intGoalsFor'') = Inr gf \<and>
     parseInt (field t ''intGoalsAgainst'') = Inr ga \<and>
     parseInt (field t ''intGoalDifference'') = Inr explicit \<and>
     position row = (case rank of Num n \<Rightarrow> if n = 0 then int index + 1 else n | NaN \<Rightarrow> int index + 1) \<and>
     playedGames row = (case played of Num n \<Rightarrow> n | NaN \<Rightarrow> 0) \<and>
     won row = (case wins of Num n \<Rightarrow> n | NaN \<Rightarrow> 0) \<and>
     draw row = (case draws of Num n \<Rightarrow> n | NaN \<Rightarrow> 0) \<and>
     lost row = (case losses of Num n \<Rightarrow> n | NaN \<Rightarrow> 0) \<and>
     points row = (case pts of Num n \<Rightarrow> n | NaN \<Rightarrow> 0) \<and>
     goalsFor row = (case gf of Num n \<Rightarrow> n | NaN \<Rightarrow> 0) \<and>
     goalsAgainst row = (case ga of Num n \<Rightarrow> n | NaN \<Rightarrow> 0) \<and>
     (\<forall>n. explicit = Num n \<and> n \<noteq> 0 \<longrightarrow> goalDifference row = n) \<and>
     (explicit = NaN \<longrightarrow> goalDifference row = goalsFor row - goalsAgainst row) \<and>
     (field t ''intGoalDifference'' = JUndefined \<longrightarrow>
        goalDifference row = goalsFor row - goalsAgainst row)"
proof -
  from standingsRow_Inr [OF assms] obtain rank played wins draws losses pts gf ga explicit where
    parses: "parseInt (field t ''intRank'') = Inr rank"
      "parseInt (field t ''intPlayed'') = Inr played"
      "parseInt (field t ''intWin'') = Inr wins"
      "parseInt (field t ''intDraw'') = Inr draws"
      "parseInt (field t ''intLoss'') = Inr losses"
      "parseInt (field t ''intPoints'') = Inr pts"
      "parseInt (field t ''intGoalsFor'') = Inr gf"
      "parseInt (field t ''intGoalsAgainst'') = Inr ga"
      "parseInt (field t ''intGoalDifference'') = Inr explicit"
    and fields: "position row = orInt rank (int index + 1)"
      "playedGames row = orInt played 0" "won row = orInt wins 0" "draw row = orInt draws 0"
      "lost row = orInt losses 0" "points row = orInt pts 0" "goalsFor row = orInt gf 0"
      "goalsAgainst row = orInt ga 0"
    and diff: "goalDifference row = orInt explicit (orInt gf 0 - orInt ga 0)"
    by blast
  have pos: "position row = (case rank of Num n \<Rightarrow> if n = 0 then int index + 1 else n | NaN \<Rightarrow> int index + 1)"
    using fields(1) by (simp add: orInt_def split: number.splits)
  have nonzero: "\<forall>n. explicit = Num n \<and> n \<noteq> 0 \<longrightarrow> goalDifference row = n"
    using diff by (simp add: orInt_def)
  have computed: "explicit = NaN \<longrightarrow> goalDifference row = goalsFor row - goalsAgainst row"
    using diff fields(7,8) by (simp add: orInt_def)
  have omitted: "field t ''intGoalDifference'' = JUndefined \<longrightarrow>
      goalDifference row = goalsFor row - goalsAgainst row"
    using computed parses(9) by (auto simp: parseInt_undefined)
  show ?thesis
    using parses fields(2-8) pos nonzero computed omitted unfolding orInt_zero by blast
qed

theorem standingsRow_numeric_fields_witness:
  "standingsRow sampleRuntime liverpoolRow 0 = Inr liverpoolStanding \<and>
   parseInt (field liverpoolRow ''intGoalDifference'') = Inr (Num 21) \<and>
   goalDifference liverpoolStanding = 21 \<and>
   position liverpoolStanding = 1 \<and>
   playedGames liverpoolStanding = 15"
proof -
  have h: "standingsRow sampleRuntime liverpoolRow 0 = Inr liverpoolStanding"
    by code_simp
  have p: "parseInt (field liverpoolRow ''intGoalDifference'') = Inr (Num 21)"
    "parseInt (field liverpoolRow ''intRank'') = Inr (Num 1)"
    "parseInt (field liverpoolRow ''intPlayed'') = Inr (Num 15)"
    by code_simp+
  show ?thesis
    using standingsRow_numeric_fields [OF h] h p by auto
qed

text \<open>
  An explicit goal difference that parses to 0 is falsy under \<^verbatim>\<open>||\<close>, so the computed value
  takes its place.
\<close>

lemma standingsRow_zero_difference:
  "parseInt (field zeroDifferenceRow ''intGoalDifference'') = Inr (Num 0) \<and>
   map_sum id goalDifference (standingsRow sampleRuntime zeroDifferenceRow 6) = Inr 2"
  by code_simp

section \<open>Teams\<close>





















section \<open>Analytics\<close>

lemma foldl_plus: "foldl (\<lambda>sum t. sum + f t) z xs = z + sum_list (map f xs)"
  for z :: int
  by (induction xs arbitrary: z) simp_all

lemma toFixed1_tenth: "\<exists>n::int. toFixed1 x = of_int n / 10 \<and> \<bar>toFixed1 x - x\<bar> \<le> 1 / 20"
proof (cases "x < 0")
  case True
  define n where "n = \<lfloor>10 * (- x) + 1 / 2\<rfloor>"
  define y where "y = rat_of_int (- n) / 10 - x"
  have "rat_of_int n \<le> 10 * (- x) + 1 / 2" "10 * (- x) + 1 / 2 < rat_of_int n + 1"
    unfolding n_def by linarith+
  then have "y \<le> 1 / 20" "- y \<le> 1 / 20"
    unfolding y_def by simp_all
  then have "\<bar>y\<bar> \<le> 1 / 20"
    by (rule abs_leI)
  moreover have "toFixed1 x = rat_of_int (- n) / 10"
    using True by (simp add: toFixed1_def n_def)
  ultimately have "toFixed1 x = rat_of_int (- n) / 10 \<and> \<bar>toFixed1 x - x\<bar> \<le> 1 / 20"
    unfolding y_def by (simp only:)
  then show ?thesis by (rule exI)
next
  case False
  define n where "n = \<lfloor>10 * x + 1 / 2\<rfloor>"
  define y where "y = rat_of_int n / 10 - x"
  have "rat_of_int n \<le> 10 * x + 1 / 2" "10 * x + 1 / 2 < rat_of_int n + 1"
    unfolding n_def by linarith+
  then have "y \<le> 1 / 20" "- y \<le> 1 / 20"
    unfolding y_def by simp_all
  then have "\<bar>y\<bar> \<le> 1 / 20"
    by (rule abs_leI)
  moreover have "toFixed1 x = rat_of_int n / 10"
    using False by (simp add: toFixed1_def n_def)
  ultimately have "toFixed1 x = rat_of_int n / 10 \<and> \<bar>toFixed1 x - x\<bar> \<le> 1 / 20"
    unfolding y_def by (simp only:)
  then show ?thesis by (rule exI)
qed

lemma binade_le:
  assumes "q \<noteq> 0"
  shows "2 powi (binade q) \<le> \<bar>q\<bar>"
proof -
  obtain a b where ab: "quotient_of \<bar>q\<bar> = (a, b)" by (cases "quotient_of \<bar>q\<bar>")
  have b: "0 < b" using ab by (rule quotient_of_denom_pos)
  have q: "\<bar>q\<bar> = of_int a / of_int b" using ab by (rule quotient_of_div)
  have a: "0 < a"
  proof -
    have "0 < \<bar>q\<bar>" using assms by simp
    then show ?thesis unfolding q using b by (simp add: zero_less_divide_iff)
  qed
  define la where "la = floorlog 2 (nat a)"
  define lb where "lb = floorlog 2 (nat b)"
  have la: "2 ^ (la - 1) \<le> nat a" and lb: "nat b < 2 ^ lb"
    using floorlog_bounds [of "nat a" 2] floorlog_bounds [of "nat b" 2] a b
    by (simp_all add: la_def lb_def)
  have "la \<noteq> 0" using a by (simp add: la_def floorlog_eq_zero_iff)
  then have la0: "0 < la" by simp
  have "(2::rat) ^ (la - 1) \<le> of_int a"
  proof -
    have "(2::rat) ^ (la - 1) = of_nat (2 ^ (la - 1))" by simp
    also have "\<dots> \<le> of_nat (nat a)" using la by (simp only: of_nat_le_iff)
    also have "\<dots> = of_int a" using a by simp
    finally show ?thesis .
  qed
  moreover have "of_int b < (2::rat) ^ lb"
  proof -
    have "of_int b = (of_nat (nat b) :: rat)" using b by simp
    also have "\<dots> < of_nat (2 ^ lb)" using lb by (simp only: of_nat_less_iff)
    finally show ?thesis by simp
  qed
  ultimately have low: "(2::rat) ^ (la - 1) / 2 ^ lb \<le> of_int a / of_int b"
    using a b by (intro frac_le) simp_all
  have "(2::rat) powi (int la - int lb - 1) = 2 ^ (la - 1) / 2 ^ lb"
  proof -
    have "int la - int lb - 1 = int (la - 1) - int lb" using la0 by simp
    then have "(2::rat) powi (int la - int lb - 1) = 2 powi (int (la - 1) - int lb)"
      by (simp only:)
    also have "\<dots> = 2 powi int (la - 1) / 2 powi int lb"
      by (rule power_int_diff) simp
    finally show ?thesis by (simp only: power_int_of_nat)
  qed
  with low have "(2::rat) powi (int la - int lb - 1) \<le> \<bar>q\<bar>" by (simp add: q)
  then show ?thesis
    by (simp add: binade_def ab Let_def la_def lb_def)
qed

lemma roundHalfEven_near: "\<bar>of_int (roundHalfEven y) - y\<bar> \<le> 1 / 2"
proof -
  have "of_int \<lfloor>y\<rfloor> \<le> y" "y < of_int \<lfloor>y\<rfloor> + 1" by linarith+
  then show ?thesis
    by (auto simp: roundHalfEven_def Let_def abs_le_iff)
qed

lemma toDouble_near: "\<bar>toDouble q - q\<bar> \<le> \<bar>q\<bar> / 2 ^ 53"
proof (cases "q = 0")
  case True
  then show ?thesis by (simp add: toDouble_def)
next
  case False
  define u where "u = (2::rat) powi (binade q - 52)"
  have u: "0 < u" by (simp add: u_def)
  have "\<bar>of_int (roundHalfEven (q / u)) - q / u\<bar> \<le> 1 / 2"
    by (rule roundHalfEven_near)
  then have "\<bar>of_int (roundHalfEven (q / u)) - q / u\<bar> * u \<le> 1 / 2 * u"
    using u by (intro mult_right_mono) simp_all
  moreover have "\<bar>of_int (roundHalfEven (q / u)) - q / u\<bar> * u = \<bar>of_int (roundHalfEven (q / u)) * u - q\<bar>"
  proof -
    have "\<bar>of_int (roundHalfEven (q / u)) - q / u\<bar> * u = \<bar>(of_int (roundHalfEven (q / u)) - q / u) * u\<bar>"
      using u by (simp add: abs_mult)
    also have "(of_int (roundHalfEven (q / u)) - q / u) * u = of_int (roundHalfEven (q / u)) * u - q"
      using u by (simp add: field_simps)
    finally show ?thesis .
  qed
  ultimately have "\<bar>of_int (roundHalfEven (q / u)) * u - q\<bar> \<le> 1 / 2 * u"
    by (simp only:)
  moreover have "toDouble q = of_int (roundHalfEven (q / u)) * u"
    using False by (simp add: toDouble_def u_def Let_def)
  ultimately have err: "\<bar>toDouble q - q\<bar> \<le> u / 2"
    by simp
  have "u = 2 powi (binade q) / 2 ^ 52"
    by (simp add: u_def power_int_diff)
  also have "\<dots> \<le> \<bar>q\<bar> / 2 ^ 52"
    using binade_le [OF False] by (intro divide_right_mono) simp_all
  finally have "u / 2 \<le> \<bar>q\<bar> / 2 ^ 52 / 2" by simp
  also have "\<dots> = \<bar>q\<bar> / 2 ^ 53" by simp
  finally show ?thesis using err by linarith
qed


text \<open>
  The double nearest to \<open>7 / 20\<close> lies below it, so \<^verbatim>\<open>(7 / 20).toFixed(1)\<close> is \<^verbatim>\<open>0.3\<close>,
  and \<open>5 / 4\<close> is a double, at which the larger neighbour is taken.
\<close>

lemma toFixed1_at_ties:
  "toFixed1 (toDouble (7 / 20)) = 3 / 10 \<and> toFixed1 (toDouble (5 / 4)) = 13 / 10"
  by code_simp

lemma summarise_Own:
  assumes "(case standings st of [] \<Rightarrow> Own [] | g # gs \<Rightarrow> table g) = Own rows"
  shows "\<exists>s. summarise st ms = Inr s \<and>
     totalGoals s = sum_list (map goalsFor rows) \<and>
     avgGoalsPerMatch s =
       (if 0 < sum_list (map playedGames rows)
        then toDouble (toFixed1 (toDouble
               (of_int (sum_list (map goalsFor rows)) / (of_int (sum_list (map playedGames rows)) / 2))))
        else 0)"
  using assms by (simp add: summarise_def Let_def foldl_plus)

lemma fetchAnalyticsData_unfold:
  "returned (fetchAnalyticsData rt a t1 t2 c se) =
     (case bindE (returned (fetchStandings rt a t1 c se)) (\<lambda>st.
           bindE (returned (fetchCompetitionMatches rt (apiAfter (fetchStandings rt a t1 c se)) t2 c se))
             (\<lambda>ms. summarise st ms)) of
        Inr s \<Rightarrow> Inr s
      | Inl error \<Rightarrow> Inr emptySummary)"
  by (simp add: fetchAnalyticsData_def returned_def apiAfter_def split: prod.splits)

text \<open>
  Claim C6. \<open>fetchAnalyticsData\<close> always returns a summary, never an exception. When
  either feed throws, the summary is the all-zero one. When both feeds return and the
  standings table is the array \<open>rows\<close>, the total is the sum of \<open>goalsFor\<close>, and the average
  is the total divided by (the sum of \<open>playedGames\<close> divided by 2), rounded to one decimal
  place, when that divisor is positive, and 0 otherwise: in particular when the table is
  empty or the divisor is 0. The division is the double nearest to the exact quotient
  (relative error at most \<open>2^-53\<close>); the rounding to one decimal place yields a multiple of
  one tenth at distance at most one twentieth from that double, and the result is the
  double nearest to that multiple.
\<close>

theorem fetchAnalyticsData_average:
  "(\<exists>s. returned (fetchAnalyticsData rt a t1 t2 c se) = Inr s) \<and>
   ((\<exists>e. returned (fetchStandings rt a t1 c se) = Inl e) \<or>
    (\<exists>e. returned (fetchCompetitionMatches rt (apiAfter (fetchStandings rt a t1 c se)) t2 c se) = Inl e)
      \<longrightarrow> returned (fetchAnalyticsData rt a t1 t2 c se) = Inr emptySummary) \<and>
   (\<forall>st ms rows.
      returned (fetchStandings rt a t1 c se) = Inr st \<and>
      returned (fetchCompetitionMatches rt (apiAfter (fetchStandings rt a t1 c se)) t2 c se) = Inr ms \<and>
      (case standings st of [] \<Rightarrow> Own [] | g # gs \<Rightarrow> table g) = Own rows \<longrightarrow>
      (\<exists>s. returned (fetchAnalyticsData rt a t1 t2 c se) = Inr s \<and>
           totalGoals s = sum_list (map goalsFor rows) \<and>
           avgGoalsPerMatch s =
             (if 0 < sum_list (map playedGames rows)
              then toDouble (toFixed1 (toDouble
                     (of_int (sum_list (map goalsFor rows)) /
                      (of_int (sum_list (map playedGames rows)) / 2))))
              else 0) \<and>
           (rows = [] \<or> sum_list (map playedGames rows) = 0 \<longrightarrow> avgGoalsPerMatch s = 0))) \<and>
   (\<forall>x. \<exists>n::int. toFixed1 x = of_int n / 10 \<and> \<bar>toFixed1 x - x\<bar> \<le> 1 / 20) \<and>
   (\<forall>q. \<bar>toDouble q - q\<bar> \<le> \<bar>q\<bar> / 2 ^ 53)"
proof (intro conjI allI impI)
  show "\<exists>s. returned (fetchAnalyticsData rt a t1 t2 c se) = Inr s"
    unfolding fetchAnalyticsData_unfold by (simp split: sum.splits)
next
  assume "(\<exists>e. returned (fetchStandings rt a t1 c se) = Inl e) \<or>
    (\<exists>e. returned (fetchCompetitionMatches rt (apiAfter (fetchStandings rt a t1 c se)) t2 c se) = Inl e)"
  then show "returned (fetchAnalyticsData rt a t1 t2 c se) = Inr emptySummary"
    unfolding fetchAnalyticsData_unfold by (auto simp: bindE_def split: sum.splits)
next
  fix st ms rows
  assume h: "returned (fetchStandings rt a t1 c se) = Inr st \<and>
      returned (fetchCompetitionMatches rt (apiAfter (fetchStandings rt a t1 c se)) t2 c se) = Inr ms \<and>
      (case standings st of [] \<Rightarrow> Own [] | g # gs \<Rightarrow> table g) = Own rows"
  then have tbl: "(case standings st of [] \<Rightarrow> Own [] | g # gs \<Rightarrow> table g) = Own rows"
    by (elim conjE)
  from summarise_Own [OF tbl, of ms] obtain s where s: "summarise st ms = Inr s"
    "totalGoals s = sum_list (map goalsFor rows)"
    "avgGoalsPerMatch s =
       (if 0 < sum_list (map playedGames rows)
        then toDouble (toFixed1 (toDouble
               (of_int (sum_list (map goalsFor rows)) / (of_int (sum_list (map playedGames rows)) / 2))))
        else 0)"
    by (elim conjE exE)
  have "returned (fetchAnalyticsData rt a t1 t2 c se) = Inr s"
    unfolding fetchAnalyticsData_unfold using h s(1) by (simp add: bindE_def)
  moreover have "rows = [] \<or> sum_list (map playedGames rows) = 0 \<longrightarrow> avgGoalsPerMatch s = 0"
    using s(3) by auto
  ultimately show "\<exists>s. returned (fetchAnalyticsData rt a t1 t2 c se) = Inr s \<and>
           totalGoals s = sum_list (map goalsFor rows) \<and>
           avgGoalsPerMatch s =
             (if 0 < sum_list (map playedGames rows)
              then toDouble (toFixed1 (toDouble
                     (of_int (sum_list (map goalsFor rows)) /
                      (of_int (sum_list (map playedGames rows)) / 2))))
              else 0) \<and>
           (rows = [] \<or> sum_list (map playedGames rows) = 0 \<longrightarrow> avgGoalsPerMatch s = 0)"
    using s(2,3) by (intro exI conjI)
next
  fix x show "\<exists>n::int. toFixed1 x = of_int n / 10 \<and> \<bar>toFixed1 x - x\<bar> \<le> 1 / 20"
    by (rule toFixed1_tenth)
next
  fix q show "\<bar>toDouble q - q\<bar> \<le> \<bar>q\<bar> / 2 ^ 53"
    by (rule toDouble_near)
qed

theorem fetchAnalyticsData_average_witness:
  "returned (fetchStandings sampleRuntime constructor
      (sampleTick 0 (HttpResponse True 200 ''OK'' (Some JNull))) ''PL'' None) = Inl TypeError \<and>
   returned (fetchAnalyticsData sampleRuntime constructor
      (sampleTick 0 (HttpResponse True 200 ''OK'' (Some JNull))) (sampleTick 0 NetworkError) ''PL'' None)
     = Inr emptySummary \<and>
   (\<exists>s. returned (fetchAnalyticsData sampleRuntime constructor
          (sampleTick 0 (HttpResponse True 200 ''OK'' (Some (JObj [(''table'', JArr [])]))))
          (sampleTick 0 NetworkError) ''PL'' None) = Inr s \<and>
        totalGoals s = 0 \<and> avgGoalsPerMatch s = 0)"
proof -
  define st0 where "st0 =
     \<lparr> standings = [\<lparr> stage = ''REGULAR_SEASON'', group_type = ''TOTAL'', table = Own [] \<rparr>],
       competition = \<lparr> competition_name = Own ''Premier League'', competition_code = ''PL'' \<rparr>,
       season = ''2024-2025'' \<rparr>"
  have raised: "returned (fetchStandings sampleRuntime constructor
      (sampleTick 0 (HttpResponse True 200 ''OK'' (Some JNull))) ''PL'' None) = Inl TypeError"
    by code_simp
  have feed1: "returned (fetchStandings sampleRuntime constructor
      (sampleTick 0 (HttpResponse True 200 ''OK'' (Some (JObj [(''table'', JArr [])])))) ''PL'' None) = Inr st0"
    unfolding st0_def by code_simp
  have "\<not> isl (returned (fetchCompetitionMatches sampleRuntime
      (apiAfter (fetchStandings sampleRuntime constructor
        (sampleTick 0 (HttpResponse True 200 ''OK'' (Some (JObj [(''table'', JArr [])])))) ''PL'' None))
      (sampleTick 0 NetworkError) ''PL'' None))"
    by code_simp
  then obtain ms where feed2: "returned (fetchCompetitionMatches sampleRuntime
      (apiAfter (fetchStandings sampleRuntime constructor
        (sampleTick 0 (HttpResponse True 200 ''OK'' (Some (JObj [(''table'', JArr [])])))) ''PL'' None))
      (sampleTick 0 NetworkError) ''PL'' None) = Inr ms"
    by (auto simp: isl_def) (metis sum.exhaust)
  have tbl: "(case standings st0 of [] \<Rightarrow> Own [] | g # gs \<Rightarrow> table g) = Own []"
    by (simp add: st0_def)
  have empty: "returned (fetchAnalyticsData sampleRuntime constructor
      (sampleTick 0 (HttpResponse True 200 ''OK'' (Some JNull))) (sampleTick 0 NetworkError) ''PL'' None)
     = Inr emptySummary"
    using fetchAnalyticsData_average [of sampleRuntime constructor
        "sampleTick 0 (HttpResponse True 200 ''OK'' (Some JNull))" "sampleTick 0 NetworkError" "''PL''" None]
      raised by (elim conjE) (rule mp, assumption, rule disjI1, rule exI)
  have zero: "\<exists>s. returned (fetchAnalyticsData sampleRuntime constructor
          (sampleTick 0 (HttpResponse True 200 ''OK'' (Some (JObj [(''table'', JArr [])]))))
          (sampleTick 0 NetworkError) ''PL'' None) = Inr s \<and>
        totalGoals s = 0 \<and> avgGoalsPerMatch s = 0"
    using fetchAnalyticsData_average [of sampleRuntime constructor
        "sampleTick 0 (HttpResponse True 200 ''OK'' (Some (JObj [(''table'', JArr [])])))"
        "sampleTick 0 NetworkError" "''PL''" None]
      feed1 feed2 tbl by (elim conjE allE [of _ st0] allE [of _ ms] allE [of _ "[]"]) auto
  show ?thesis using raised empty zero by (intro conjI)
qed


section \<open>Tab switching\<close>

lemma switchTab_trace:
  "fst (switchTab rt m t1 t2 t3 tabId c s) =
     [SetActiveTab tabId, SetLoading True] @
     (map HttpGet (requested (dispatch rt (api_object m) t1 t2 t3 tabId c s)) @
      (case returned (dispatch rt (api_object m) t1 t2 t3 tabId c s) of
         Inr d \<Rightarrow> [SetTabData d, Toast (successToast rt tabId)]
       | Inl e \<Rightarrow> [Toast failureToast, SetTabData (ErrorPayload errorData)])) @
     [SetLoading False]"
  by (simp add: switchTab_def handleTabError_def returned_def requested_def split: prod.splits sum.splits)

lemma switchTab_activeTab: "activeTab (snd (switchTab rt m t1 t2 t3 tabId c s)) = activeTab m"
  by (simp add: switchTab_def split: prod.splits)

lemma dispatch_unknown:
  assumes "tabId \<notin> set [''live-matches'', ''league-tables'', ''team-stats'', ''recent-results'']"
  shows "dispatch rt a t1 t2 t3 tabId c s = (Inr (UnknownTab True ''Unknown tab selected''), a, [])"
  using assms by (simp add: dispatch_def)

text \<open>
  Claim C7. Every call of \<open>switchTab\<close> first sets the active tab to \<open>tabId\<close> and the
  loading flag to true, then does the dispatched work with all its HTTP requests, then,
  on the success path (tab data and a success toast) as on the error path (the failure
  toast and the error payload), sets the loading flag to false as its last step. The
  flag is set to false exactly once and to true exactly once.
\<close>

theorem switchTab_loading_bracket:
  "\<exists>mid. fst (switchTab rt m t1 t2 t3 tabId c s) =
           [SetActiveTab tabId, SetLoading True] @ mid @ [SetLoading False] \<and>
         mid = map HttpGet (requested (dispatch rt (api_object m) t1 t2 t3 tabId c s)) @
               (case returned (dispatch rt (api_object m) t1 t2 t3 tabId c s) of
                  Inr d \<Rightarrow> [SetTabData d, Toast (successToast rt tabId)]
                | Inl e \<Rightarrow> [Toast failureToast, SetTabData (ErrorPayload errorData)]) \<and>
         (\<forall>b. SetLoading b \<notin> set mid) \<and>
         (\<forall>tab. SetActiveTab tab \<notin> set mid) \<and>
         length (filter (\<lambda>e. e = SetLoading False) (fst (switchTab rt m t1 t2 t3 tabId c s))) = 1 \<and>
         length (filter (\<lambda>e. e = SetLoading True) (fst (switchTab rt m t1 t2 t3 tabId c s))) = 1"
proof -
  define mid where "mid = map HttpGet (requested (dispatch rt (api_object m) t1 t2 t3 tabId c s)) @
               (case returned (dispatch rt (api_object m) t1 t2 t3 tabId c s) of
                  Inr d \<Rightarrow> [SetTabData d, Toast (successToast rt tabId)]
                | Inl e \<Rightarrow> [Toast failureToast, SetTabData (ErrorPayload errorData)])"
  have trace: "fst (switchTab rt m t1 t2 t3 tabId c s) =
      [SetActiveTab tabId, SetLoading True] @ mid @ [SetLoading False]"
    unfolding mid_def by (rule switchTab_trace)
  have noLoading: "SetLoading b \<notin> set mid" for b
    unfolding mid_def by (auto split: sum.splits)
  have noActive: "SetActiveTab tab \<notin> set mid" for tab
    unfolding mid_def by (auto split: sum.splits)
  have none: "filter (\<lambda>e. e = SetLoading b) mid = []" for b
    using noLoading [of b] by (auto simp: filter_empty_conv)
  have once: "length (filter (\<lambda>e. e = SetLoading False) (fst (switchTab rt m t1 t2 t3 tabId c s))) = 1"
    "length (filter (\<lambda>e. e = SetLoading True) (fst (switchTab rt m t1 t2 t3 tabId c s))) = 1"
    unfolding trace by (simp_all add: none)
  show ?thesis
    using trace noLoading noActive once mid_def by (intro exI [of _ mid] conjI allI)
qed

theorem switchTab_loading_bracket_witness:
  "fst (switchTab sampleRuntime (TabManager ''live-matches'')
      (sampleTick 0 (HttpResponse True 200 ''OK'' (Some JNull))) (sampleTick 0 NetworkError)
      (sampleTick 0 NetworkError) ''league-tables'' ''PL'' None) =
     [SetActiveTab ''league-tables'', SetLoading True,
      HttpGet ''https://www.thesportsdb.com/api/v1/json/3/lookuptable.php?l=4328'',
      Toast failureToast, SetTabData (ErrorPayload errorData), SetLoading False] \<and>
   length (filter (\<lambda>e. e = SetLoading False) (fst (switchTab sampleRuntime (TabManager ''live-matches'')
      (sampleTick 0 (HttpResponse True 200 ''OK'' (Some JNull))) (sampleTick 0 NetworkError)
      (sampleTick 0 NetworkError) ''league-tables'' ''PL'' None))) = 1"
proof -
  have d: "returned (dispatch sampleRuntime (api_object (TabManager ''live-matches''))
      (sampleTick 0 (HttpResponse True 200 ''OK'' (Some JNull))) (sampleTick 0 NetworkError)
      (sampleTick 0 NetworkError) ''league-tables'' ''PL'' None) = Inl TypeError"
    "requested (dispatch sampleRuntime (api_object (TabManager ''live-matches''))
      (sampleTick 0 (HttpResponse True 200 ''OK'' (Some JNull))) (sampleTick 0 NetworkError)
      (sampleTick 0 NetworkError) ''league-tables'' ''PL'' None) =
      [''https://www.thesportsdb.com/api/v1/json/3/lookuptable.php?l=4328'']"
    by code_simp+
  show ?thesis
    using switchTab_loading_bracket [of sampleRuntime "TabManager ''live-matches''"
        "sampleTick 0 (HttpResponse True 200 ''OK'' (Some JNull))" "sampleTick 0 NetworkError"
        "sampleTick 0 NetworkError" "''league-tables''" "''PL''" None]
    by (auto simp: d)
qed

text \<open>
  Claim C8. For every \<open>tabId\<close> outside the four known tabs, \<open>switchTab\<close> still sets the
  active tab to \<open>tabId\<close>, stores \<^verbatim>\<open>{error: true, message: 'Unknown tab selected'}\<close> as the
  tab data and shows the success toast; it makes no request, and neither the failure
  toast nor the error payload of the error handler appears.
\<close>

theorem switchTab_unknown_tab:
  assumes "tabId \<notin> set [''live-matches'', ''league-tables'', ''team-stats'', ''recent-results'']"
  shows "switchTab rt m t1 t2 t3 tabId c s =
           ([SetActiveTab tabId, SetLoading True,
             SetTabData (UnknownTab True ''Unknown tab selected''),
             Toast (successToast rt tabId), SetLoading False], m) \<and>
         title (successToast rt tabId) = ''Data Loaded Successfully'' \<and>
         variant (successToast rt tabId) = None \<and>
         Toast failureToast \<notin> set (fst (switchTab rt m t1 t2 t3 tabId c s)) \<and>
         SetTabData (ErrorPayload errorData) \<notin> set (fst (switchTab rt m t1 t2 t3 tabId c s))"
proof -
  have run: "switchTab rt m t1 t2 t3 tabId c s =
           ([SetActiveTab tabId, SetLoading True,
             SetTabData (UnknownTab True ''Unknown tab selected''),
             Toast (successToast rt tabId), SetLoading False], m)"
    by (simp add: switchTab_def dispatch_unknown [OF assms])
  have differ: "successToast rt tabId \<noteq> failureToast"
    by (simp add: successToast_def failureToast_def)
  show ?thesis
    unfolding run using differ by (simp add: successToast_def)
qed

theorem switchTab_unknown_tab_witness:
  "''settings'' \<notin> set [''live-matches'', ''league-tables'', ''team-stats'', ''recent-results''] \<and>
   switchTab sampleRuntime (TabManager ''live-matches'') (sampleTick 0 NetworkError)
       (sampleTick 0 NetworkError) (sampleTick 0 NetworkError) ''settings'' ''PL'' None =
     ([SetActiveTab ''settings'', SetLoading True,
       SetTabData (UnknownTab True ''Unknown tab selected''),
       Toast \<lparr> title = ''Data Loaded Successfully'',
               description = ''Data loaded from TheSportsDB API.'', variant = None \<rparr>,
       SetLoading False], TabManager ''live-matches'')"
proof -
  have h: "''settings'' \<notin> set [''live-matches'', ''league-tables'', ''team-stats'', ''recent-results'']"
    by simp
  have t: "successToast sampleRuntime ''settings'' =
      \<lparr> title = ''Data Loaded Successfully'',
        description = ''Data loaded from TheSportsDB API.'', variant = None \<rparr>"
    by (simp add: successToast_def getTabDisplayName_def lookupOr_def lookup_def tabNames_def
        objectPrototypeKeys_def memberString_def)
  show ?thesis
    using switchTab_unknown_tab [OF h, of sampleRuntime "TabManager ''live-matches''"
        "sampleTick 0 NetworkError" "sampleTick 0 NetworkError" "sampleTick 0 NetworkError" "''PL''" None]
      h unfolding t by (intro conjI) (elim conjE, assumption)+
qed

text \<open>
  Claim C10. \<open>switchTab\<close> never writes the manager's own \<open>activeTab\<close> field: after the call
  \<open>getCurrentTab\<close> returns what it returned before, so for a manager just constructed it
  returns the tab given to the constructor, and \<open>isTabActive tabId\<close> holds exactly when
  \<open>tabId\<close> is that initial tab.
\<close>

theorem switchTab_keeps_activeTab:
  "getCurrentTab (snd (switchTab rt m t1 t2 t3 tabId c s)) = getCurrentTab m \<and>
   getCurrentTab (snd (switchTab rt (TabManager initialTab) t1 t2 t3 tabId c s)) = initialTab \<and>
   isTabActive (snd (switchTab rt (TabManager initialTab) t1 t2 t3 tabId c s)) tabId
     = (tabId = initialTab)"
  by (auto simp: getCurrentTab_def isTabActive_def switchTab_activeTab TabManager_def)

theorem switchTab_keeps_activeTab_witness:
  "getCurrentTab (snd (switchTab sampleRuntime (TabManager ''live-matches'') (sampleTick 0 NetworkError)
       (sampleTick 0 NetworkError) (sampleTick 0 NetworkError) ''team-stats'' ''PL'' None))
     = ''live-matches'' \<and>
   \<not> isTabActive (snd (switchTab sampleRuntime (TabManager ''live-matches'') (sampleTick 0 NetworkError)
       (sampleTick 0 NetworkError) (sampleTick 0 NetworkError) ''team-stats'' ''PL'' None)) ''team-stats''"
  using switchTab_keeps_activeTab [of sampleRuntime "TabManager ''live-matches''"
      "sampleTick 0 NetworkError" "sampleTick 0 NetworkError" "sampleTick 0 NetworkError"
      "''team-stats''" "''PL''" None "''live-matches''"]
  by (simp add: getCurrentTab_def TabManager_def)


end
